theory Spec2Isabelle
  imports Main "HOL-Library.Sublist" "HOL-Library.AList" "HOL-Library.Word"
begin

section \<open>Strings and paths\<close>

text \<open>
  Python strings are modelled as \<^typ>\<open>string\<close>. \<open>str.lower\<close> is modelled on the ASCII
  letters; every other character is left as it is.
\<close>

definition lower_char :: "char \<Rightarrow> char" where
  "lower_char c =
     (case map_of (zip ''ABCDEFGHIJKLMNOPQRSTUVWXYZ'' ''abcdefghijklmnopqrstuvwxyz'') c of
        None \<Rightarrow> c
      | Some d \<Rightarrow> d)"

definition lower :: "string \<Rightarrow> string" where
  "lower s = map lower_char s"

text \<open>\<open>s.startswith(p)\<close>\<close>

fun startswith :: "string \<Rightarrow> string \<Rightarrow> bool" where
  "startswith s [] = True"
| "startswith [] (p # ps) = False"
| "startswith (c # s) (p # ps) = (c = p \<and> startswith s ps)"

text \<open>\<open>p in s\<close> for strings: \<open>p\<close> occurs in \<open>s\<close> as a contiguous substring.\<close>

fun contains :: "string \<Rightarrow> string \<Rightarrow> bool" where
  "contains [] p = (p = [])"
| "contains (c # s) p = (startswith (c # s) p \<or> contains s p)"

text \<open>
  A \<open>pathlib.Path\<close> that is absolute is modelled by the list of its components below the
  root \<open>/\<close>; \<open>path_str\<close> is \<open>str(path)\<close> and \<open>joinpath\<close> is \<open>path / item\<close> for a
  single name.
\<close>

type_synonym path = "string list"

definition path_str :: "path \<Rightarrow> string" where
  "path_str p = (if p = [] then ''/'' else concat (map (\<lambda>c. CHR ''/'' # c) p))"

definition joinpath :: "path \<Rightarrow> string \<Rightarrow> path" where
  "joinpath p item = p @ [item]"

section \<open>Exceptions\<close>

text \<open>
  The exceptions the code raises or receives from the host. \<open>HTTPException\<close> is a subclass
  of \<open>Exception\<close>, as are all the others. A detail is a plain message, the body of a denied
  path, or a message built from a caught exception (\<open>f"...{e}"\<close>).
\<close>

datatype exn =
    HTTPException nat detail
  | FileNotFoundError
  | PermissionError
  | IsADirectoryError
  | NotADirectoryError
  | FileExistsError
  | OSError
  | AttributeError
  | TypeError
  | ValueError
  | JSONDecodeError
  | UnicodeDecodeError
and detail =
    Text string
  | Denied string string string "string list"
  | Caused string exn

section \<open>PathGuard: \<open>normalize_path\<close> (dependencies.py)\<close>

text \<open>
  \<open>pathlib.Path(os.path.expanduser(requested_path)).resolve()\<close> is a call into the host and
  is a parameter \<open>resolve\<close> of the model; \<open>ALLOWED_DIRECTORIES\<close> comes from the
  configuration module and is a parameter as well. \<open>normalize_loop\<close> is the \<open>for\<close> loop
  over the allowed directories with its early \<open>return\<close>; falling out of the loop raises
  the 403.
\<close>

fun normalize_loop :: "path \<Rightarrow> string list \<Rightarrow> string list \<Rightarrow> exn + path" where
  "normalize_loop requested ALLOWED_DIRECTORIES [] =
     Inl (HTTPException 403
            (Denied ''Access Denied'' (path_str requested)
               ''Requested path is outside allowed directories.'' ALLOWED_DIRECTORIES))"
| "normalize_loop requested ALLOWED_DIRECTORIES (allowed # rest) =
     (if startswith (lower (path_str requested)) (lower allowed) then Inr requested
      else normalize_loop requested ALLOWED_DIRECTORIES rest)"

definition normalize_path :: "(string \<Rightarrow> path) \<Rightarrow> string list \<Rightarrow> string \<Rightarrow> exn + path" where
  "normalize_path resolve ALLOWED_DIRECTORIES requested_path =
     (let requested = resolve requested_path
      in normalize_loop requested ALLOWED_DIRECTORIES ALLOWED_DIRECTORIES)"

section \<open>The host: a filesystem tree, the snapshot file, and a log of host calls\<close>

text \<open>
  The filesystem is a tree: a file with its text, or a directory with its entries in the
  order the host lists them. \<open>lookup\<close> follows a path from the root and fails the way
  the host does: a missing name is \<open>FileNotFoundError\<close>, a file used as a directory is
  \<open>NotADirectoryError\<close>.
\<close>

datatype node = File string | Dir "(string \<times> node) list"

fun lookup :: "node \<Rightarrow> path \<Rightarrow> exn + node" where
  "lookup n [] = Inr n"
| "lookup (File content) (c # cs) = Inl NotADirectoryError"
| "lookup (Dir entries) (c # cs) =
     (case map_of entries c of None \<Rightarrow> Inl FileNotFoundError | Some n \<Rightarrow> lookup n cs)"

text \<open>\<open>put\<close> creates or replaces the node at a path whose parent is a directory.\<close>

fun put :: "node \<Rightarrow> path \<Rightarrow> node \<Rightarrow> node" where
  "put n [] new = new"
| "put (File content) (c # cs) new = File content"
| "put (Dir entries) (c # cs) new =
     (case map_of entries c of
        None \<Rightarrow> (if cs = [] then Dir (entries @ [(c, new)]) else Dir entries)
      | Some child \<Rightarrow> Dir (AList.update c (put child cs new) entries))"

text \<open>\<open>remove\<close> deletes the entry at a path together with everything below it.\<close>

fun remove :: "node \<Rightarrow> path \<Rightarrow> node" where
  "remove n [] = n"
| "remove (File content) (c # cs) = File content"
| "remove (Dir entries) [c] = Dir (AList.delete c entries)"
| "remove (Dir entries) (c # d # ds) =
     (case map_of entries c of
        None \<Rightarrow> Dir entries
      | Some child \<Rightarrow> Dir (AList.update c (remove child (d # ds)) entries))"

text \<open>
  The persisted confirmation snapshot \<open>./.pending_confirmations.json\<close>, as
  \<open>load_confirmations\<close> sees it: absent; present but failing to open or read with
  \<open>IOError\<close>; present with bytes that do not decode as text, so that reading them
  inside \<open>json.load\<close> raises \<open>UnicodeDecodeError\<close>; present with text that
  \<open>json.load\<close> rejects with \<open>JSONDecodeError\<close>; well-formed JSON whose top level is
  not an object; or an object mapping tokens to entries.
  An entry carries \<open>path\<close>, \<open>recursive\<close> and \<open>expiry\<close>; \<open>j_expiry\<close> is what
  \<open>datetime.fromisoformat(details["expiry"])\<close> makes of the stored field: \<open>Some t\<close> for a
  timestamp with a UTC offset (as \<open>save_confirmations\<close> writes it), the instant \<open>t\<close> counted
  in microseconds, and \<open>None\<close> when the field is missing, not a string, not in ISO format or
  without an offset, each of which ends in the \<open>ValueError\<close>, \<open>TypeError\<close> or \<open>KeyError\<close>
  that the loop catches. The snapshot file is taken to lie outside the tree above.
\<close>

record stored =
  j_path :: string
  j_recursive :: bool
  j_expiry :: "int option"

datatype snapshot_file =
    Missing
  | Unreadable
  | Undecodable
  | Malformed
  | NotObject
  | Object "(string \<times> stored) list"

text \<open>A pending confirmation in memory: the loaded entry with its expiry as a datetime.\<close>

record details =
  c_path :: string
  c_recursive :: bool
  c_expiry :: int

text \<open>
  Calls into the host are recorded in a log, in the order the code makes them. Path
  resolution inside \<open>normalize_path\<close> is not recorded.
\<close>

datatype io =
    StatSnapshot
  | ReadSnapshot
  | WriteSnapshot
  | Stat path
  | ReadText path
  | WriteText path
  | Unlink path
  | Rmdir path
  | Rmtree path
  | Walk path
  | Iterdir path
  | Mkdir path
  | Glob path
  | Move path path

text \<open>
  \<open>denied\<close> marks the paths on which the host refuses every call with
  \<open>PermissionError\<close>; \<open>snapshot_writable\<close> says whether opening the snapshot file for
  writing succeeds.
\<close>

record world =
  root :: node
  denied :: "path \<Rightarrow> bool"
  snapshot :: snapshot_file
  snapshot_writable :: bool
  log :: "io list"

definition emit :: "io \<Rightarrow> world \<Rightarrow> world" where
  "emit e w = w\<lparr>log := log w @ [e]\<rparr>"

text \<open>Code that may raise and may change the world: sequencing, raising, handling.\<close>

type_synonym 'a action = "world \<Rightarrow> world \<times> (exn + 'a)"

definition return :: "'a \<Rightarrow> 'a action" where
  "return x w = (w, Inr x)"

definition raise :: "exn \<Rightarrow> 'a action" where
  "raise e w = (w, Inl e)"

definition lift :: "exn + 'a \<Rightarrow> 'a action" where
  "lift r w = (w, r)"

definition then_do :: "'a action \<Rightarrow> ('a \<Rightarrow> 'b action) \<Rightarrow> 'b action" where
  "then_do m f w = (case m w of (w', Inl e) \<Rightarrow> (w', Inl e) | (w', Inr x) \<Rightarrow> f x w')"

definition try_except :: "'a action \<Rightarrow> (exn \<Rightarrow> 'a action) \<Rightarrow> 'a action" where
  "try_except m handler w =
     (case m w of (w', Inl e) \<Rightarrow> handler e w' | (w', Inr x) \<Rightarrow> (w', Inr x))"

text \<open>\<open>isinstance(e, OSError)\<close>\<close>

fun is_OSError :: "exn \<Rightarrow> bool" where
  "is_OSError FileNotFoundError = True"
| "is_OSError PermissionError = True"
| "is_OSError IsADirectoryError = True"
| "is_OSError NotADirectoryError = True"
| "is_OSError FileExistsError = True"
| "is_OSError OSError = True"
| "is_OSError e = False"

subsection \<open>Host calls on paths\<close>

definition path_exists :: "path \<Rightarrow> bool action" where
  "path_exists p w =
     (emit (Stat p) w,
      if denied w p then Inl PermissionError
      else Inr (case lookup (root w) p of Inl e \<Rightarrow> False | Inr n \<Rightarrow> True))"

definition is_file :: "path \<Rightarrow> bool action" where
  "is_file p w =
     (emit (Stat p) w,
      if denied w p then Inl PermissionError
      else Inr (case lookup (root w) p of Inr (File content) \<Rightarrow> True | _ \<Rightarrow> False))"

definition is_dir :: "path \<Rightarrow> bool action" where
  "is_dir p w =
     (emit (Stat p) w,
      if denied w p then Inl PermissionError
      else Inr (case lookup (root w) p of Inr (Dir entries) \<Rightarrow> True | _ \<Rightarrow> False))"

text \<open>
  A file is read in text mode with universal newlines: \<open>CR LF\<close> and a lone \<open>CR\<close>
  in the file both arrive as \<open>LF\<close>. (Writing leaves \<open>LF\<close> as it is on a POSIX host.)
\<close>

fun universal_newlines :: "string \<Rightarrow> string" where
  "universal_newlines [] = []"
| "universal_newlines [c] = (if c = CHR 0x0D then [CHR 0x0A] else [c])"
| "universal_newlines (c # d # s) =
     (if c = CHR 0x0D \<and> d = CHR 0x0A then CHR 0x0A # universal_newlines s
      else if c = CHR 0x0D then CHR 0x0A # universal_newlines (d # s)
      else c # universal_newlines (d # s))"

definition read_text :: "path \<Rightarrow> string action" where
  "read_text p w =
     (emit (ReadText p) w,
      if denied w p then Inl PermissionError
      else (case lookup (root w) p of
              Inl e \<Rightarrow> Inl e
            | Inr (File content) \<Rightarrow> Inr (universal_newlines content)
            | Inr (Dir entries) \<Rightarrow> Inl IsADirectoryError))"

definition write_text :: "path \<Rightarrow> string \<Rightarrow> unit action" where
  "write_text p content w =
     (if denied w p then (emit (WriteText p) w, Inl PermissionError)
      else (case lookup (root w) p of
              Inr (Dir entries) \<Rightarrow> (emit (WriteText p) w, Inl IsADirectoryError)
            | Inr (File old) \<Rightarrow> (emit (WriteText p) (w\<lparr>root := put (root w) p (File content)\<rparr>), Inr ())
            | Inl NotADirectoryError \<Rightarrow> (emit (WriteText p) w, Inl NotADirectoryError)
            | Inl e \<Rightarrow>
                (case lookup (root w) (butlast p) of
                   Inr (Dir entries) \<Rightarrow>
                     (emit (WriteText p) (w\<lparr>root := put (root w) p (File content)\<rparr>), Inr ())
                 | _ \<Rightarrow> (emit (WriteText p) w, Inl FileNotFoundError))))"

definition unlink :: "path \<Rightarrow> unit action" where
  "unlink p w =
     (if denied w p then (emit (Unlink p) w, Inl PermissionError)
      else (case lookup (root w) p of
              Inl e \<Rightarrow> (emit (Unlink p) w, Inl e)
            | Inr (Dir entries) \<Rightarrow> (emit (Unlink p) w, Inl IsADirectoryError)
            | Inr (File content) \<Rightarrow> (emit (Unlink p) (w\<lparr>root := remove (root w) p\<rparr>), Inr ())))"

definition rmdir :: "path \<Rightarrow> unit action" where
  "rmdir p w =
     (if denied w p then (emit (Rmdir p) w, Inl PermissionError)
      else (case lookup (root w) p of
              Inl e \<Rightarrow> (emit (Rmdir p) w, Inl e)
            | Inr (File content) \<Rightarrow> (emit (Rmdir p) w, Inl NotADirectoryError)
            | Inr (Dir entries) \<Rightarrow>
                (if entries = [] \<and> p \<noteq> []
                 then (emit (Rmdir p) (w\<lparr>root := remove (root w) p\<rparr>), Inr ())
                 else (emit (Rmdir p) w, Inl OSError))))"

definition rmtree :: "path \<Rightarrow> unit action" where
  "rmtree p w =
     (if denied w p then (emit (Rmtree p) w, Inl PermissionError)
      else (case lookup (root w) p of
              Inl e \<Rightarrow> (emit (Rmtree p) w, Inl e)
            | Inr (File content) \<Rightarrow> (emit (Rmtree p) w, Inl NotADirectoryError)
            | Inr (Dir entries) \<Rightarrow>
                (if p \<noteq> []
                 then (emit (Rmtree p) (w\<lparr>root := remove (root w) p\<rparr>), Inr ())
                 else (emit (Rmtree p) (w\<lparr>root := Dir []\<rparr>), Inl OSError))))"

section \<open>ConfirmationStore (confirmations.py)\<close>

definition CONFIRMATION_TTL_SECONDS :: int where
  "CONFIRMATION_TTL_SECONDS = 60"

text \<open>\<open>timedelta(seconds=s)\<close>, in microseconds.\<close>

definition timedelta_seconds :: "int \<Rightarrow> int" where
  "timedelta_seconds s = s * 1000000"

text \<open>
  The \<open>for token, details in data.items()\<close> loop of \<open>load_confirmations\<close>: an entry whose
  expiry does not parse is skipped by the \<open>except\<close> clause; one whose expiry is after
  \<open>now\<close> is stored into \<open>valid_confirmations\<close> (a dict assignment: \<open>AList.update\<close>).
\<close>

fun load_loop :: "int \<Rightarrow> (string \<times> stored) list \<Rightarrow> (string \<times> details) list \<Rightarrow> (string \<times> details) list" where
  "load_loop now [] valid_confirmations = valid_confirmations"
| "load_loop now ((token, d) # items) valid_confirmations =
     (case j_expiry d of
        None \<Rightarrow> load_loop now items valid_confirmations
      | Some expiry \<Rightarrow>
          (if expiry > now
           then load_loop now items
                  (AList.update token
                     \<lparr>c_path = j_path d, c_recursive = j_recursive d, c_expiry = expiry\<rparr>
                     valid_confirmations)
           else load_loop now items valid_confirmations))"

text \<open>
  What the body of the \<open>try\<close> block of \<open>load_confirmations\<close> gets from the file:
  the items of the parsed object, or the exception raised on the way. \<open>IOError\<close> is
  \<open>OSError\<close>; \<open>UnicodeDecodeError\<close> and \<open>JSONDecodeError\<close> are both kinds of
  \<open>ValueError\<close>, and different ones; a top-level value that is not an object has no
  \<open>items\<close>.
\<close>

definition snapshot_items :: "snapshot_file \<Rightarrow> exn + (string \<times> stored) list" where
  "snapshot_items f =
     (case f of
        Missing \<Rightarrow> Inl FileNotFoundError
      | Unreadable \<Rightarrow> Inl OSError
      | Undecodable \<Rightarrow> Inl UnicodeDecodeError
      | Malformed \<Rightarrow> Inl JSONDecodeError
      | NotObject \<Rightarrow> Inl AttributeError
      | Object data \<Rightarrow> Inr data)"

text \<open>
  \<open>load_confirmations\<close>; \<open>now\<close> is the value \<open>datetime.now(timezone.utc)\<close> returns inside
  it. The clause \<open>except (json.JSONDecodeError, IOError)\<close> turns those two kinds of
  exception into the empty mapping; any other exception propagates.
\<close>

definition load_confirmations :: "int \<Rightarrow> ((string \<times> details) list) action" where
  "load_confirmations now w =
     (if snapshot w = Missing then (emit StatSnapshot w, Inr [])
      else (case snapshot_items (snapshot w) of
              Inl e \<Rightarrow>
                (emit ReadSnapshot (emit StatSnapshot w),
                 if e = JSONDecodeError \<or> is_OSError e then Inr [] else Inl e)
            | Inr data \<Rightarrow>
                (emit ReadSnapshot (emit StatSnapshot w), Inr (load_loop now data []))))"

text \<open>\<open>save_confirmations\<close>: the whole mapping is written; an \<open>IOError\<close> is swallowed.\<close>

definition serializable :: "(string \<times> details) list \<Rightarrow> (string \<times> stored) list" where
  "serializable confirmations =
     map (\<lambda>(token, d).
            (token, \<lparr>j_path = c_path d, j_recursive = c_recursive d, j_expiry = Some (c_expiry d)\<rparr>))
         confirmations"

definition save_confirmations :: "(string \<times> details) list \<Rightarrow> world \<Rightarrow> world" where
  "save_confirmations confirmations w =
     (if snapshot_writable w
      then emit WriteSnapshot (w\<lparr>snapshot := Object (serializable confirmations)\<rparr>)
      else emit WriteSnapshot w)"

section \<open>Responses\<close>

datatype tree_entry = TreeEntry string string "tree_entry list option"

datatype response =
    SuccessResponse string
  | ConfirmationRequiredResponse string string int
  | DiffResponse string
  | ReadFileResponse string
  | Matches "string list"
  | ContentMatches "(string \<times> nat \<times> string) list"
  | Listing "(string \<times> string) list"
  | Tree "tree_entry list"
  | Metadata string string nat int int int
  | AllowedDirectories "string list"

section \<open>DeleteWorkflow: \<open>delete_path\<close> (routers/path\_ops.py)\<close>

record DeletePathRequest =
  dp_path :: string
  dp_recursive :: bool
  dp_confirmation_token :: "string option"

text \<open>
  \<open>secrets.token_hex(3)\<close>: the hexadecimal text of the random bytes the host supplies
  (\<open>rnd\<close>, three of them).
\<close>

definition hexdigit :: "nat \<Rightarrow> char" where
  "hexdigit n = ''0123456789abcdef'' ! (n mod 16)"

definition token_hex :: "8 word list \<Rightarrow> string" where
  "token_hex rnd = concat (map (\<lambda>b. [hexdigit (unat b div 16), hexdigit (unat b mod 16)]) rnd)"

text \<open>
  The body of the \<open>try\<close> block of the confirmation step, and the two \<open>except\<close> clauses
  that follow it. Every exception raised in the body, an \<open>HTTPException\<close> included, passes
  through the clauses.
\<close>

definition delete_try :: "DeletePathRequest \<Rightarrow> path \<Rightarrow> response action" where
  "delete_try data path =
     then_do (path_exists path) (\<lambda>ex.
       if \<not> ex then raise (HTTPException 404 (Text (''Path not found: '' @ dp_path data)))
       else then_do (is_file path) (\<lambda>isf.
         if isf
         then then_do (unlink path) (\<lambda>_.
                return (SuccessResponse (''Successfully deleted file: '' @ dp_path data)))
         else then_do (is_dir path) (\<lambda>isd.
           if isd
           then (if dp_recursive data
                 then then_do (rmtree path) (\<lambda>_.
                        return (SuccessResponse
                                  (''Successfully deleted directory recursively: '' @ dp_path data)))
                 else try_except
                        (then_do (rmdir path) (\<lambda>_.
                           return (SuccessResponse
                                     (''Successfully deleted empty directory: '' @ dp_path data))))
                        (\<lambda>e. if is_OSError e
                              then raise (HTTPException 400
                                     (Caused ''Directory not empty. Use 'recursive=True' to delete non-empty directories. Original error: '' e))
                              else raise e))
           else raise (HTTPException 400
                         (Text (''Path is not a file or directory: '' @ dp_path data))))))"

definition delete_except :: "DeletePathRequest \<Rightarrow> exn \<Rightarrow> response action" where
  "delete_except data e =
     (case e of
        PermissionError \<Rightarrow>
          raise (HTTPException 403 (Text (''Permission denied to delete '' @ dp_path data)))
      | _ \<Rightarrow>
          raise (HTTPException 500 (Caused (''Failed to delete '' @ dp_path data @ '': '') e)))"

text \<open>The confirmation step: the branch taken when the request carries a non-empty token.\<close>

definition delete_confirm ::
  "int \<Rightarrow> DeletePathRequest \<Rightarrow> string \<Rightarrow> path \<Rightarrow> (string \<times> details) list \<Rightarrow> response action" where
  "delete_confirm now data token path pending_confirmations =
     (case map_of pending_confirmations token of
        None \<Rightarrow> raise (HTTPException 400 (Text ''Invalid or expired confirmation token.''))
      | Some confirmation_data \<Rightarrow>
          (if now > c_expiry confirmation_data
           then (\<lambda>w. (save_confirmations (AList.delete token pending_confirmations) w,
                       Inl (HTTPException 400 (Text ''Confirmation token has expired.''))))
           else if c_path confirmation_data \<noteq> dp_path data
                   \<or> c_recursive confirmation_data \<noteq> dp_recursive data
           then raise (HTTPException 400
                         (Text ''Request parameters (path, recursive) do not match the original request for this token.''))
           else (\<lambda>w. try_except (delete_try data path) (delete_except data)
                        (save_confirmations (AList.delete token pending_confirmations) w))))"

text \<open>The issuing step: the branch taken when the request carries no token.\<close>

definition delete_issue ::
  "8 word list \<Rightarrow> int \<Rightarrow> DeletePathRequest \<Rightarrow> path \<Rightarrow> (string \<times> details) list \<Rightarrow> response action" where
  "delete_issue rnd now data path pending_confirmations =
     then_do (path_exists path) (\<lambda>ex.
       if \<not> ex then raise (HTTPException 404 (Text (''Path not found: '' @ dp_path data)))
       else
         (let token = take 5 (token_hex rnd);
              expiry_time = now + timedelta_seconds CONFIRMATION_TTL_SECONDS;
              pending' = AList.update token
                           \<lparr>c_path = dp_path data, c_recursive = dp_recursive data,
                            c_expiry = expiry_time\<rparr>
                           pending_confirmations;
              confirmation_message =
                ''`Confirm deletion of file: '' @ dp_path data @ '' with token '' @ token @ ''`''
          in (\<lambda>w. (save_confirmations pending' w,
                     Inr (ConfirmationRequiredResponse confirmation_message token expiry_time)))))"

text \<open>
  \<open>delete_path\<close>. \<open>t_load\<close> is the clock reading inside \<open>load_confirmations\<close>, \<open>now\<close>
  the later one taken in \<open>delete_path\<close> itself. An empty token string is falsy and takes
  the issuing branch, as a missing one does.
\<close>

definition delete_path ::
  "(string \<Rightarrow> path) \<Rightarrow> string list \<Rightarrow> 8 word list \<Rightarrow> int \<Rightarrow> int \<Rightarrow> DeletePathRequest \<Rightarrow> response action" where
  "delete_path resolve ALLOWED_DIRECTORIES rnd t_load now data =
     then_do (load_confirmations t_load) (\<lambda>pending_confirmations.
       then_do (lift (normalize_path resolve ALLOWED_DIRECTORIES (dp_path data))) (\<lambda>path.
         (case dp_confirmation_token data of
            None \<Rightarrow> delete_issue rnd now data path pending_confirmations
          | Some token \<Rightarrow>
              (if token \<noteq> []
               then delete_confirm now data token path pending_confirmations
               else delete_issue rnd now data path pending_confirmations))))"

text \<open>
  What the confirmation step deletes without raising: a file, an empty directory, or any
  directory when the recursive flag is set.
\<close>

definition deletable :: "node \<Rightarrow> bool \<Rightarrow> bool" where
  "deletable n recursive = (case n of File content \<Rightarrow> True | Dir entries \<Rightarrow> recursive \<or> entries = [])"

section \<open>FileOps: \<open>read_file\<close>, \<open>write_file\<close>, \<open>edit_file\<close> (routers/files.py)\<close>

record EditOperation =
  oldText :: string
  newText :: string

record EditFileRequest =
  ef_path :: string
  ef_edits :: "EditOperation list"
  ef_dryRun :: bool

text \<open>\<open>s.replace(old, new, 1)\<close>: the leftmost occurrence of \<open>old\<close> is replaced.\<close>

fun replace_first :: "string \<Rightarrow> string \<Rightarrow> string \<Rightarrow> string" where
  "replace_first [] old new = (if old = [] then new else [])"
| "replace_first (c # s) old new =
     (if startswith (c # s) old then new @ drop (length old) (c # s)
      else c # replace_first s old new)"

text \<open>
  The \<open>for edit in data.edits\<close> loop: the 400 is raised at the first edit whose
  \<open>oldText\<close> is not in the content as modified so far.
\<close>

fun apply_edits :: "EditOperation list \<Rightarrow> string \<Rightarrow> exn + string" where
  "apply_edits [] modified = Inr modified"
| "apply_edits (edit # edits) modified =
     (if \<not> contains modified (oldText edit)
      then Inl (HTTPException 400
                  (Text (''Edit failed: oldText not found in content: '' @ [CHR 0x27]
                         @ take 50 (oldText edit) @ ''...'' @ [CHR 0x27])))
      else apply_edits edits (replace_first modified (oldText edit) (newText edit)))"

text \<open>
  \<open>s.splitlines(keepends=True)\<close> on the ASCII line boundaries; \<open>cur\<close> is the line read
  so far.
\<close>

definition is_linebreak :: "char \<Rightarrow> bool" where
  "is_linebreak c \<longleftrightarrow> c \<in> set [CHR 0x0A, CHR 0x0B, CHR 0x0C, CHR 0x0D, CHR 0x1C, CHR 0x1D, CHR 0x1E]"

fun splitlines :: "string \<Rightarrow> string \<Rightarrow> string list" where
  "splitlines cur [] = (if cur = [] then [] else [cur])"
| "splitlines cur [c] = [cur @ [c]]"
| "splitlines cur (c # d # s) =
     (if c = CHR 0x0D \<and> d = CHR 0x0A then (cur @ [c, d]) # splitlines [] s
      else if is_linebreak c then (cur @ [c]) # splitlines [] (d # s)
      else splitlines (cur @ [c]) (d # s))"

definition read_file :: "(string \<Rightarrow> path) \<Rightarrow> string list \<Rightarrow> string \<Rightarrow> response action" where
  "read_file resolve ALLOWED_DIRECTORIES data_path =
     then_do (lift (normalize_path resolve ALLOWED_DIRECTORIES data_path)) (\<lambda>path.
       try_except
         (then_do (read_text path) (\<lambda>file_content. return (ReadFileResponse file_content)))
         (\<lambda>e. case e of
                 FileNotFoundError \<Rightarrow>
                   raise (HTTPException 404 (Text (''File not found: '' @ data_path)))
               | PermissionError \<Rightarrow>
                   raise (HTTPException 403 (Text (''Permission denied for file: '' @ data_path)))
               | _ \<Rightarrow>
                   raise (HTTPException 500
                            (Caused (''Failed to read file '' @ data_path @ '': '') e))))"

definition write_file ::
  "(string \<Rightarrow> path) \<Rightarrow> string list \<Rightarrow> string \<Rightarrow> string \<Rightarrow> response action" where
  "write_file resolve ALLOWED_DIRECTORIES data_path data_content =
     then_do (lift (normalize_path resolve ALLOWED_DIRECTORIES data_path)) (\<lambda>path.
       try_except
         (then_do (write_text path data_content) (\<lambda>_.
            return (SuccessResponse (''Successfully wrote to '' @ data_path))))
         (\<lambda>e. case e of
                 PermissionError \<Rightarrow>
                   raise (HTTPException 403 (Text (''Permission denied to write to '' @ data_path)))
               | _ \<Rightarrow>
                   raise (HTTPException 500
                            (Caused (''Failed to write to '' @ data_path @ '': '') e))))"

text \<open>
  \<open>edit_file\<close>. \<open>difflib.unified_diff\<close> is a library function and a parameter of the
  model. The loop over the edits, the dry run and the write all sit in one \<open>try\<close> block
  whose last clause is \<open>except Exception\<close>.
\<close>

definition edit_file ::
  "(string list \<Rightarrow> string list \<Rightarrow> string \<Rightarrow> string \<Rightarrow> string list)
   \<Rightarrow> (string \<Rightarrow> path) \<Rightarrow> string list \<Rightarrow> EditFileRequest \<Rightarrow> response action" where
  "edit_file unified_diff resolve ALLOWED_DIRECTORIES data =
     then_do (lift (normalize_path resolve ALLOWED_DIRECTORIES (ef_path data))) (\<lambda>path.
       then_do
         (try_except (read_text path)
            (\<lambda>e. case e of
                    FileNotFoundError \<Rightarrow>
                      raise (HTTPException 404 (Text (''File not found: '' @ ef_path data)))
                  | PermissionError \<Rightarrow>
                      raise (HTTPException 403
                               (Text (''Permission denied to read file: '' @ ef_path data)))
                  | _ \<Rightarrow>
                      raise (HTTPException 500
                               (Caused (''Failed to read file '' @ ef_path data @ '' for editing: '') e))))
         (\<lambda>original.
            try_except
              (then_do (lift (apply_edits (ef_edits data) original)) (\<lambda>modified.
                 if ef_dryRun data
                 then return (DiffResponse
                                (concat (unified_diff (splitlines [] original)
                                           (splitlines [] modified)
                                           (''a/'' @ ef_path data) (''b/'' @ ef_path data))))
                 else then_do (write_text path modified) (\<lambda>_.
                        return (SuccessResponse (''Successfully edited file '' @ ef_path data)))))
              (\<lambda>e. case e of
                      PermissionError \<Rightarrow>
                        raise (HTTPException 403
                                 (Text (''Permission denied to write edited file: '' @ ef_path data)))
                    | _ \<Rightarrow>
                        raise (HTTPException 500
                                 (Caused (''Failed to write edited file '' @ ef_path data @ '': '') e)))))"

section \<open>Splitting path strings\<close>

text \<open>
  A resolver for absolute path strings on a tree without symbolic links: split at \<open>/\<close>,
  drop empty and \<open>.\<close> components, and let \<open>..\<close> step up. It stands in for the host's
  \<open>resolve\<close> where a theorem is evaluated on a concrete input.
\<close>

fun split_slash :: "string \<Rightarrow> string \<Rightarrow> string list" where
  "split_slash cur [] = [cur]"
| "split_slash cur (c # s) =
     (if c = CHR ''/'' then cur # split_slash [] s else split_slash (cur @ [c]) s)"

fun normalize_parts :: "path \<Rightarrow> string list \<Rightarrow> path" where
  "normalize_parts acc [] = acc"
| "normalize_parts acc (c # cs) =
     (if c = [] \<or> c = ''.'' then normalize_parts acc cs
      else if c = ''..'' then normalize_parts (butlast acc) cs
      else normalize_parts (acc @ [c]) cs)"

definition resolve_absolute :: "string \<Rightarrow> path" where
  "resolve_absolute s = normalize_parts [] (split_slash [] s)"

section \<open>DirOps: \<open>search_files\<close> (routers/directories.py)\<close>

record SearchFilesRequest =
  sf_path :: string
  sf_pattern :: string
  sf_excludePatterns :: "string list option"

text \<open>
  \<open>os.walk(top)\<close>, top-down and without following links: one triple
  \<open>(root, dirs, files)\<close> for the directory itself, then the triples of each subdirectory
  in turn. A directory the host refuses to list is skipped without an error, and so is a
  top that is not a directory.
\<close>

definition dirnames :: "(string \<times> node) list \<Rightarrow> string list" where
  "dirnames entries = map fst (filter (\<lambda>(name, n). case n of Dir es \<Rightarrow> True | File c \<Rightarrow> False) entries)"

definition filenames :: "(string \<times> node) list \<Rightarrow> string list" where
  "filenames entries = map fst (filter (\<lambda>(name, n). case n of Dir es \<Rightarrow> False | File c \<Rightarrow> True) entries)"

fun walk_node :: "(path \<Rightarrow> bool) \<Rightarrow> path \<Rightarrow> node \<Rightarrow> (path \<times> string list \<times> string list) list"
  and walk_entries :: "(path \<Rightarrow> bool) \<Rightarrow> path \<Rightarrow> (string \<times> node) list \<Rightarrow> (path \<times> string list \<times> string list) list" where
  "walk_node refused here (File content) = []"
| "walk_node refused here (Dir entries) =
     (if refused here then []
      else (here, dirnames entries, filenames entries) # walk_entries refused here entries)"
| "walk_entries refused here [] = []"
| "walk_entries refused here ((name, n) # entries) =
     walk_node refused (joinpath here name) n @ walk_entries refused here entries"

definition os_walk :: "path \<Rightarrow> ((path \<times> string list \<times> string list) list) action" where
  "os_walk here w =
     (emit (Walk here) w,
      Inr (case lookup (root w) here of Inl e \<Rightarrow> [] | Inr n \<Rightarrow> walk_node (denied w) here n))"

text \<open>
  The inner \<open>for pattern in data.excludePatterns\<close> loop, with its \<open>break\<close>.
  \<open>pathlib.Path(root).match(pattern)\<close> is a library call and a parameter \<open>path_match\<close>
  of the model; it may raise.
\<close>

fun excluded_loop :: "(path \<Rightarrow> string \<Rightarrow> exn + bool) \<Rightarrow> path \<Rightarrow> string list \<Rightarrow> exn + bool" where
  "excluded_loop path_match root_dir [] = Inr False"
| "excluded_loop path_match root_dir (pattern # patterns) =
     (case path_match root_dir pattern of
        Inl e \<Rightarrow> Inl e
      | Inr matched \<Rightarrow> if matched then Inr True else excluded_loop path_match root_dir patterns)"

text \<open>The \<open>for item in files + dirs\<close> loop: the paths it appends to \<open>results\<close>.\<close>

fun items_loop :: "string list \<Rightarrow> string \<Rightarrow> path \<Rightarrow> string list \<Rightarrow> string list" where
  "items_loop ALLOWED_DIRECTORIES pattern root_path [] = []"
| "items_loop ALLOWED_DIRECTORIES pattern root_path (item # items) =
     (if contains (lower item) (lower pattern)
         \<and> list_ex (\<lambda>alt. startswith (path_str (joinpath root_path item)) alt) ALLOWED_DIRECTORIES
      then path_str (joinpath root_path item)
             # items_loop ALLOWED_DIRECTORIES pattern root_path items
      else items_loop ALLOWED_DIRECTORIES pattern root_path items)"

text \<open>
  The \<open>for root, dirs, files in os.walk(base_path)\<close> loop. \<open>excludePatterns\<close> is optional
  in the request; when it is \<open>None\<close> the inner loop raises \<open>TypeError\<close>.
\<close>

fun walk_loop ::
  "(path \<Rightarrow> string \<Rightarrow> exn + bool) \<Rightarrow> string list \<Rightarrow> SearchFilesRequest
   \<Rightarrow> (path \<times> string list \<times> string list) list \<Rightarrow> string list \<Rightarrow> exn + string list" where
  "walk_loop path_match ALLOWED_DIRECTORIES data [] results = Inr results"
| "walk_loop path_match ALLOWED_DIRECTORIES data ((root_dir, dirs, files) # triples) results =
     (case sf_excludePatterns data of
        None \<Rightarrow> Inl TypeError
      | Some patterns \<Rightarrow>
          (case excluded_loop path_match root_dir patterns of
             Inl e \<Rightarrow> Inl e
           | Inr excluded \<Rightarrow>
               if excluded then walk_loop path_match ALLOWED_DIRECTORIES data triples results
               else walk_loop path_match ALLOWED_DIRECTORIES data triples
                      (results @ items_loop ALLOWED_DIRECTORIES (sf_pattern data) root_dir
                                   (files @ dirs))))"

definition search_files ::
  "(path \<Rightarrow> string \<Rightarrow> exn + bool) \<Rightarrow> (string \<Rightarrow> path) \<Rightarrow> string list
   \<Rightarrow> SearchFilesRequest \<Rightarrow> response action" where
  "search_files path_match resolve ALLOWED_DIRECTORIES data =
     then_do (lift (normalize_path resolve ALLOWED_DIRECTORIES (sf_path data))) (\<lambda>base_path.
       then_do (os_walk base_path) (\<lambda>triples.
         then_do (lift (walk_loop path_match ALLOWED_DIRECTORIES data triples [])) (\<lambda>results.
           return (Matches (if results = [] then [''No matches found''] else results)))))"

text \<open>
  \<open>PurePosixPath.match\<close> as CPython's \<open>pathlib\<close> has it up to version 3.11, for
  evaluating \<open>search_files\<close> on concrete inputs. The pattern is split into components;
  none at all is a \<open>ValueError\<close>. A pattern with a root must match the whole path; a
  relative one is matched from the right, component by component, against the parts of
  the path, of which the root \<open>/\<close> is the first. Components are compared by
  \<open>fnmatchcase\<close>, modelled for \<open>*\<close>, \<open>?\<close> and literal characters (bracket expressions
  are not modelled).
\<close>

function fnmatchcase :: "string \<Rightarrow> string \<Rightarrow> bool" where
  "fnmatchcase [] [] = True"
| "fnmatchcase (c # s) [] = False"
| "fnmatchcase [] (p # ps) = (p = CHR ''*'' \<and> fnmatchcase [] ps)"
| "fnmatchcase (c # s) (p # ps) =
     (if p = CHR ''*'' then fnmatchcase (c # s) ps \<or> fnmatchcase s (p # ps)
      else if p = CHR ''?'' then fnmatchcase s ps
      else c = p \<and> fnmatchcase s ps)"
  by pat_completeness auto
termination
  by (relation "measure (\<lambda>(s, ps). length s + length ps)") auto

definition pattern_parts :: "string \<Rightarrow> string list" where
  "pattern_parts pattern = filter (\<lambda>c. c \<noteq> [] \<and> c \<noteq> ''.'') (split_slash [] pattern)"

definition PurePath_match :: "path \<Rightarrow> string \<Rightarrow> exn + bool" where
  "PurePath_match p pattern =
     (let pat_parts = pattern_parts pattern;
          rooted = startswith pattern ''/'';
          parts = ''/'' # p
      in if pat_parts = [] \<and> \<not> rooted then Inl ValueError
         else if startswith pattern ''//'' \<and> \<not> startswith pattern ''///'' then Inr False
         else if rooted
         then Inr (length pat_parts = length p
                   \<and> list_all (\<lambda>(part, pat). fnmatchcase part pat) (zip (rev p) (rev pat_parts)))
         else Inr (length pat_parts \<le> length parts
                   \<and> list_all (\<lambda>(part, pat). fnmatchcase part pat)
                        (zip (rev parts) (rev pat_parts))))"

section \<open>The remaining operations (routers/directories.py, routers/path\_ops.py)\<close>

text \<open>\<open>Path.mkdir(parents=True, exist_ok=True)\<close> on the tree.\<close>

fun mkdirs :: "node \<Rightarrow> path \<Rightarrow> exn + node" where
  "mkdirs (Dir entries) [] = Inr (Dir entries)"
| "mkdirs (File content) [] = Inl FileExistsError"
| "mkdirs (File content) (c # cs) = Inl NotADirectoryError"
| "mkdirs (Dir entries) (c # cs) =
     (case map_of entries c of
        None \<Rightarrow>
          (case mkdirs (Dir []) cs of
             Inl e \<Rightarrow> Inl e
           | Inr child \<Rightarrow> Inr (Dir (entries @ [(c, child)])))
      | Some n \<Rightarrow>
          (case mkdirs n cs of
             Inl e \<Rightarrow> Inl e
           | Inr child \<Rightarrow> Inr (Dir (AList.update c child entries))))"

definition mkdir_parents :: "path \<Rightarrow> unit action" where
  "mkdir_parents p w =
     (if denied w p then (emit (Mkdir p) w, Inl PermissionError)
      else (case mkdirs (root w) p of
              Inl e \<Rightarrow> (emit (Mkdir p) w, Inl e)
            | Inr r \<Rightarrow> (emit (Mkdir p) (w\<lparr>root := r\<rparr>), Inr ())))"

definition create_directory :: "(string \<Rightarrow> path) \<Rightarrow> string list \<Rightarrow> string \<Rightarrow> response action" where
  "create_directory resolve ALLOWED_DIRECTORIES data_path =
     then_do (lift (normalize_path resolve ALLOWED_DIRECTORIES data_path)) (\<lambda>dir_path.
       try_except
         (then_do (mkdir_parents dir_path) (\<lambda>_.
            return (SuccessResponse (''Successfully created directory '' @ data_path))))
         (\<lambda>e. case e of
                 PermissionError \<Rightarrow>
                   raise (HTTPException 403
                            (Text (''Permission denied to create directory '' @ data_path)))
               | _ \<Rightarrow>
                   raise (HTTPException 500
                            (Caused (''Failed to create directory '' @ data_path @ '': '') e))))"

text \<open>
  \<open>Path.iterdir()\<close>. Whether a listed entry is a directory is read off the listing.
\<close>

definition iterdir :: "path \<Rightarrow> ((string \<times> node) list) action" where
  "iterdir p w =
     (emit (Iterdir p) w,
      if denied w p then Inl PermissionError
      else (case lookup (root w) p of
              Inl e \<Rightarrow> Inl e
            | Inr (File content) \<Rightarrow> Inl NotADirectoryError
            | Inr (Dir entries) \<Rightarrow> Inr entries))"

definition entry_type :: "node \<Rightarrow> string" where
  "entry_type n = (case n of Dir entries \<Rightarrow> ''directory'' | File content \<Rightarrow> ''file'')"

definition list_directory :: "(string \<Rightarrow> path) \<Rightarrow> string list \<Rightarrow> string \<Rightarrow> response action" where
  "list_directory resolve ALLOWED_DIRECTORIES data_path =
     then_do (lift (normalize_path resolve ALLOWED_DIRECTORIES data_path)) (\<lambda>dir_path.
       then_do (is_dir dir_path) (\<lambda>isd.
         if \<not> isd then raise (HTTPException 400 (Text ''Provided path is not a directory''))
         else then_do (iterdir dir_path) (\<lambda>entries.
                return (Listing (map (\<lambda>(name, n). (name, entry_type n)) entries)))))"

text \<open>
  \<open>build_tree\<close>, the recursive helper of \<open>directory_tree\<close>, over the entries of the
  current directory.
\<close>

fun build_tree :: "(path \<Rightarrow> bool) \<Rightarrow> path \<Rightarrow> (string \<times> node) list \<Rightarrow> exn + tree_entry list" where
  "build_tree refused current [] = Inr []"
| "build_tree refused current ((name, File content) # items) =
     (case build_tree refused current items of
        Inl e \<Rightarrow> Inl e
      | Inr entries \<Rightarrow> Inr (TreeEntry name ''file'' None # entries))"
| "build_tree refused current ((name, Dir sub) # items) =
     (if refused (joinpath current name) then Inl PermissionError
      else (case build_tree refused (joinpath current name) sub of
              Inl e \<Rightarrow> Inl e
            | Inr children \<Rightarrow>
                (case build_tree refused current items of
                   Inl e \<Rightarrow> Inl e
                 | Inr entries \<Rightarrow> Inr (TreeEntry name ''directory'' (Some children) # entries))))"

definition directory_tree :: "(string \<Rightarrow> path) \<Rightarrow> string list \<Rightarrow> string \<Rightarrow> response action" where
  "directory_tree resolve ALLOWED_DIRECTORIES data_path =
     then_do (lift (normalize_path resolve ALLOWED_DIRECTORIES data_path)) (\<lambda>base_path.
       then_do (iterdir base_path) (\<lambda>items. (\<lambda>w.
         (w, case build_tree (denied w) base_path items of
               Inl e \<Rightarrow> Inl e
             | Inr entries \<Rightarrow> Inr (Tree entries)))))"

record SearchContentRequest =
  sc_path :: string
  sc_search_query :: string
  sc_recursive :: bool
  sc_file_pattern :: "string option"

text \<open>The lines of a text file as iteration over the open file yields them.\<close>

fun file_lines :: "string \<Rightarrow> string \<Rightarrow> string list" where
  "file_lines cur [] = (if cur = [] then [] else [cur])"
| "file_lines cur (c # s) =
     (if c = CHR 0x0A then (cur @ [c]) # file_lines [] s else file_lines (cur @ [c]) s)"

text \<open>\<open>line.strip()\<close> on the ASCII whitespace characters.\<close>

definition is_space :: "char \<Rightarrow> bool" where
  "is_space c \<longleftrightarrow>
     c \<in> set [CHR '' '', CHR 0x09, CHR 0x0A, CHR 0x0B, CHR 0x0C, CHR 0x0D,
               CHR 0x1C, CHR 0x1D, CHR 0x1E, CHR 0x1F]"

definition strip :: "string \<Rightarrow> string" where
  "strip s = rev (dropWhile is_space (rev (dropWhile is_space s)))"

fun lines_loop :: "string \<Rightarrow> string \<Rightarrow> nat \<Rightarrow> string list \<Rightarrow> (string \<times> nat \<times> string) list" where
  "lines_loop search_query_lower file_path line_num [] = []"
| "lines_loop search_query_lower file_path line_num (line # lines) =
     (if contains (lower line) search_query_lower
      then (file_path, line_num, strip line)
             # lines_loop search_query_lower file_path (Suc line_num) lines
      else lines_loop search_query_lower file_path (Suc line_num) lines)"

text \<open>
  The \<open>for item_path in iterator\<close> loop of \<open>search_content\<close>: a file that cannot be
  read is skipped by the \<open>except Exception: continue\<close>.
\<close>

fun content_loop ::
  "string \<Rightarrow> path list \<Rightarrow> (string \<times> nat \<times> string) list \<Rightarrow> ((string \<times> nat \<times> string) list) action" where
  "content_loop search_query_lower [] results w = (w, Inr results)"
| "content_loop search_query_lower (item_path # items) results w =
     (case is_file item_path w of
        (w1, Inl e) \<Rightarrow> (w1, Inl e)
      | (w1, Inr isf) \<Rightarrow>
          if isf
          then (case read_text item_path w1 of
                  (w2, Inl e) \<Rightarrow> content_loop search_query_lower items results w2
                | (w2, Inr content) \<Rightarrow>
                    content_loop search_query_lower items
                      (results @ lines_loop search_query_lower (path_str item_path) 1
                                   (file_lines [] content)) w2)
          else content_loop search_query_lower items results w1)"

text \<open>
  \<open>search_content\<close>. \<open>base_path.rglob(pattern)\<close> and \<open>base_path.glob(pattern)\<close> are
  library calls and a parameter \<open>glob\<close> of the model, given the tree, the base path, the
  recursive flag and the pattern.
\<close>

definition glob_call ::
  "(node \<Rightarrow> path \<Rightarrow> bool \<Rightarrow> string option \<Rightarrow> exn + path list) \<Rightarrow> path \<Rightarrow> bool \<Rightarrow> string option
   \<Rightarrow> (path list) action" where
  "glob_call glob base recursive pattern w = (emit (Glob base) w, glob (root w) base recursive pattern)"

definition search_content ::
  "(node \<Rightarrow> path \<Rightarrow> bool \<Rightarrow> string option \<Rightarrow> exn + path list) \<Rightarrow> (string \<Rightarrow> path) \<Rightarrow> string list
   \<Rightarrow> SearchContentRequest \<Rightarrow> response action" where
  "search_content glob resolve ALLOWED_DIRECTORIES data =
     then_do (lift (normalize_path resolve ALLOWED_DIRECTORIES (sc_path data))) (\<lambda>base_path.
       then_do (is_dir base_path) (\<lambda>isd.
         if \<not> isd then raise (HTTPException 400 (Text ''Provided path is not a directory''))
         else then_do (glob_call glob base_path (sc_recursive data) (sc_file_pattern data)) (\<lambda>items.
                then_do (content_loop (lower (sc_search_query data)) items []) (\<lambda>results.
                  return (if results = [] then Matches [''No matches found'']
                          else ContentMatches results)))))"

text \<open>
  \<open>move_path\<close>. \<open>shutil.move\<close> is a library call and a parameter of the model: it
  gives the tree after the move, or raises.
\<close>

definition move_call :: "(node \<Rightarrow> path \<Rightarrow> path \<Rightarrow> exn + node) \<Rightarrow> path \<Rightarrow> path \<Rightarrow> unit action" where
  "move_call shutil_move src dst w =
     (if denied w src \<or> denied w dst then (emit (Move src dst) w, Inl PermissionError)
      else (case shutil_move (root w) src dst of
              Inl e \<Rightarrow> (emit (Move src dst) w, Inl e)
            | Inr r \<Rightarrow> (emit (Move src dst) (w\<lparr>root := r\<rparr>), Inr ())))"

definition move_path ::
  "(node \<Rightarrow> path \<Rightarrow> path \<Rightarrow> exn + node) \<Rightarrow> (string \<Rightarrow> path) \<Rightarrow> string list \<Rightarrow> string \<Rightarrow> string
   \<Rightarrow> response action" where
  "move_path shutil_move resolve ALLOWED_DIRECTORIES source_path destination_path =
     then_do (lift (normalize_path resolve ALLOWED_DIRECTORIES source_path)) (\<lambda>source.
       then_do (lift (normalize_path resolve ALLOWED_DIRECTORIES destination_path)) (\<lambda>destination.
         try_except
           (then_do (path_exists source) (\<lambda>ex.
              if \<not> ex
              then raise (HTTPException 404 (Text (''Source path not found: '' @ source_path)))
              else then_do (move_call shutil_move source destination) (\<lambda>_.
                     return (SuccessResponse
                               (''Successfully moved '' @ [CHR 0x27] @ source_path @ [CHR 0x27]
                                @ '' to '' @ [CHR 0x27] @ destination_path @ [CHR 0x27])))))
           (\<lambda>e. case e of
                   PermissionError \<Rightarrow>
                     raise (HTTPException 403
                              (Text (''Permission denied for move operation involving ''
                                     @ [CHR 0x27] @ source_path @ [CHR 0x27] @ '' or ''
                                     @ [CHR 0x27] @ destination_path @ [CHR 0x27])))
                 | _ \<Rightarrow>
                     raise (HTTPException 500
                              (Caused (''Failed to move '' @ [CHR 0x27] @ source_path @ [CHR 0x27]
                                       @ '' to '' @ [CHR 0x27] @ destination_path @ [CHR 0x27]
                                       @ '': '') e)))))"

text \<open>
  \<open>get_metadata\<close>. What \<open>path.stat()\<close> reports for an existing path is a parameter
  \<open>os_stat\<close>; a platform without \<open>st_birthtime\<close> has \<open>None\<close> there and the code falls
  back to \<open>st_ctime\<close>. Times are instants in microseconds.
\<close>

record stat_result =
  st_size :: nat
  st_mtime :: int
  st_ctime :: int
  st_birthtime :: "int option"

definition path_stat :: "(path \<Rightarrow> stat_result) \<Rightarrow> path \<Rightarrow> stat_result action" where
  "path_stat os_stat p w =
     (emit (Stat p) w,
      if denied w p then Inl PermissionError
      else (case lookup (root w) p of Inl e \<Rightarrow> Inl e | Inr n \<Rightarrow> Inr (os_stat p)))"

definition get_metadata ::
  "(path \<Rightarrow> stat_result) \<Rightarrow> (string \<Rightarrow> path) \<Rightarrow> string list \<Rightarrow> string \<Rightarrow> response action" where
  "get_metadata os_stat resolve ALLOWED_DIRECTORIES data_path =
     then_do (lift (normalize_path resolve ALLOWED_DIRECTORIES data_path)) (\<lambda>path.
       try_except
         (then_do (path_exists path) (\<lambda>ex.
            if \<not> ex then raise (HTTPException 404 (Text (''Path not found: '' @ data_path)))
            else then_do (path_stat os_stat path) (\<lambda>stat_result.
              then_do (is_file path) (\<lambda>isf.
                then_do (if isf then return ''file''
                         else then_do (is_dir path) (\<lambda>isd.
                                return (if isd then ''directory'' else ''other''))) (\<lambda>file_type.
                  return (Metadata (path_str path) file_type (st_size stat_result)
                            (st_mtime stat_result)
                            (case st_birthtime stat_result of
                               Some t \<Rightarrow> t
                             | None \<Rightarrow> st_ctime stat_result)
                            (st_ctime stat_result)))))))
         (\<lambda>e. case e of
                 PermissionError \<Rightarrow>
                   raise (HTTPException 403
                            (Text (''Permission denied to access metadata for '' @ data_path)))
               | _ \<Rightarrow>
                   raise (HTTPException 500
                            (Caused (''Failed to get metadata for '' @ data_path @ '': '') e))))"

definition list_allowed_directories :: "string list \<Rightarrow> response action" where
  "list_allowed_directories ALLOWED_DIRECTORIES = return (AllowedDirectories ALLOWED_DIRECTORIES)"

section \<open>The public operations (main.py)\<close>

text \<open>
  The application registers the three routers; a request is one of the twelve operations
  with its body. The library calls and the readings of clock and random source that a
  request consumes are gathered in a record.
\<close>

datatype request =
    CreateDirectory string
  | ListDirectory string
  | DirectoryTree string
  | SearchFiles SearchFilesRequest
  | SearchContent SearchContentRequest
  | ReadFile string
  | WriteFile string string
  | EditFile EditFileRequest
  | DeletePath DeletePathRequest
  | MovePath string string
  | GetMetadata string
  | ListAllowedDirectories

record environment =
  env_resolve :: "string \<Rightarrow> path"
  env_unified_diff :: "string list \<Rightarrow> string list \<Rightarrow> string \<Rightarrow> string \<Rightarrow> string list"
  env_path_match :: "path \<Rightarrow> string \<Rightarrow> exn + bool"
  env_glob :: "node \<Rightarrow> path \<Rightarrow> bool \<Rightarrow> string option \<Rightarrow> exn + path list"
  env_shutil_move :: "node \<Rightarrow> path \<Rightarrow> path \<Rightarrow> exn + node"
  env_stat :: "path \<Rightarrow> stat_result"
  env_token_bytes :: "8 word list"
  env_load_time :: int
  env_now :: int

fun serve :: "environment \<Rightarrow> string list \<Rightarrow> request \<Rightarrow> response action" where
  "serve env ALLOWED (CreateDirectory p) = create_directory (env_resolve env) ALLOWED p"
| "serve env ALLOWED (ListDirectory p) = list_directory (env_resolve env) ALLOWED p"
| "serve env ALLOWED (DirectoryTree p) = directory_tree (env_resolve env) ALLOWED p"
| "serve env ALLOWED (SearchFiles data) =
     search_files (env_path_match env) (env_resolve env) ALLOWED data"
| "serve env ALLOWED (SearchContent data) =
     search_content (env_glob env) (env_resolve env) ALLOWED data"
| "serve env ALLOWED (ReadFile p) = read_file (env_resolve env) ALLOWED p"
| "serve env ALLOWED (WriteFile p content) = write_file (env_resolve env) ALLOWED p content"
| "serve env ALLOWED (EditFile data) =
     edit_file (env_unified_diff env) (env_resolve env) ALLOWED data"
| "serve env ALLOWED (DeletePath data) =
     delete_path (env_resolve env) ALLOWED (env_token_bytes env) (env_load_time env)
       (env_now env) data"
| "serve env ALLOWED (MovePath src dst) =
     move_path (env_shutil_move env) (env_resolve env) ALLOWED src dst"
| "serve env ALLOWED (GetMetadata p) = get_metadata (env_stat env) (env_resolve env) ALLOWED p"
| "serve env ALLOWED ListAllowedDirectories = list_allowed_directories ALLOWED"

text \<open>The path strings a request carries, in the order the operation validates them.\<close>

fun request_paths :: "request \<Rightarrow> string list" where
  "request_paths (CreateDirectory p) = [p]"
| "request_paths (ListDirectory p) = [p]"
| "request_paths (DirectoryTree p) = [p]"
| "request_paths (SearchFiles data) = [sf_path data]"
| "request_paths (SearchContent data) = [sc_path data]"
| "request_paths (ReadFile p) = [p]"
| "request_paths (WriteFile p content) = [p]"
| "request_paths (EditFile data) = [ef_path data]"
| "request_paths (DeletePath data) = [dp_path data]"
| "request_paths (MovePath src dst) = [src, dst]"
| "request_paths (GetMetadata p) = [p]"
| "request_paths ListAllowedDirectories = []"

text \<open>The first denial \<open>normalize_path\<close> gives among those paths, if any.\<close>

fun first_denial :: "(string \<Rightarrow> path) \<Rightarrow> string list \<Rightarrow> string list \<Rightarrow> exn option" where
  "first_denial resolve ALLOWED [] = None"
| "first_denial resolve ALLOWED (p # ps) =
     (case normalize_path resolve ALLOWED p of
        Inl e \<Rightarrow> Some e
      | Inr accepted \<Rightarrow> first_denial resolve ALLOWED ps)"

fun is_delete :: "request \<Rightarrow> bool" where
  "is_delete (DeletePath data) = True"
| "is_delete r = False"

section \<open>Example worlds\<close>

definition example_tree :: node where
  "example_tree =
     Dir [(''root'',
           Dir [(''a.txt'', File ''foo baz foo''),
                (''sub'', Dir [(''a.log'', File ''x''),
                               (''deep'', Dir [(''a.md'', File ''y'')])])])]"

definition example_world :: world where
  "example_world =
     \<lparr>root = example_tree, denied = (\<lambda>p. False), snapshot = Missing,
      snapshot_writable = True, log = []\<rparr>"

definition pending_world :: world where
  "pending_world =
     example_world\<lparr>snapshot :=
       Object [(''abcde'', \<lparr>j_path = ''/root/a.txt'', j_recursive = False, j_expiry = Some 100\<rparr>),
               (''00000'', \<lparr>j_path = ''/root/sub'', j_recursive = True, j_expiry = Some 15\<rparr>),
               (''fffff'', \<lparr>j_path = ''/root/sub'', j_recursive = True, j_expiry = None\<rparr>)]\<rparr>"

definition example_delete_request :: "string option \<Rightarrow> DeletePathRequest" where
  "example_delete_request t =
     \<lparr>dp_path = ''/root/a.txt'', dp_recursive = False, dp_confirmation_token = t\<rparr>"

definition issued_world :: world where
  "issued_world =
     fst (delete_path resolve_absolute [''/root''] [0xAB, 0xCD, 0xEF] 0 1
            (example_delete_request None) example_world)"

definition consumed_world :: world where
  "consumed_world =
     fst (delete_path resolve_absolute [''/root''] [] 2 3
            (example_delete_request (Some ''abcde'')) issued_world)"

definition mismatch_world :: world where
  "mismatch_world =
     fst (delete_path resolve_absolute [''/root''] [] 10 20
            \<lparr>dp_path = ''/root/sub'', dp_recursive = False, dp_confirmation_token = Some ''abcde''\<rparr>
            pending_world)"

text \<open>
  A stand-in for \<open>difflib.unified_diff\<close> where a theorem is evaluated on a concrete
  input: a header, then every old line removed and every new line added.
\<close>

definition naive_diff :: "string list \<Rightarrow> string list \<Rightarrow> string \<Rightarrow> string \<Rightarrow> string list" where
  "naive_diff a b fromfile tofile =
     (if a = b then []
      else [''--- '' @ fromfile @ [CHR 0x0A], ''+++ '' @ tofile @ [CHR 0x0A]]
           @ map (\<lambda>l. CHR ''-'' # l) a @ map (\<lambda>l. CHR ''+'' # l) b)"

definition spec_tree :: node where
  "spec_tree =
     Dir [(''root'', Dir [(''a.txt'', File ''foo baz foo''), (''sub'', Dir [(''a.log'', File ''x'')])])]"

text \<open>
  An environment for evaluating requests on concrete inputs. Its stand-ins for \<open>glob\<close>,
  \<open>shutil.move\<close> and \<open>stat\<close> are only placeholders.
\<close>

definition example_env :: environment where
  "example_env =
     \<lparr>env_resolve = resolve_absolute, env_unified_diff = naive_diff,
      env_path_match = PurePath_match,
      env_glob = (\<lambda>t base recursive pattern. Inr []),
      env_shutil_move = (\<lambda>t src dst. Inr t),
      env_stat = (\<lambda>p. \<lparr>st_size = 0, st_mtime = 0, st_ctime = 0, st_birthtime = None\<rparr>),
      env_token_bytes = [0xAB, 0xCD, 0xEF], env_load_time = 0, env_now = 1\<rparr>"

section \<open>Facts about strings\<close>

lemma startswith_iff_append: "startswith s p \<longleftrightarrow> (\<exists>rest. s = p @ rest)"
  by (induction s p rule: startswith.induct) auto

lemma startswith_iff_prefix: "startswith s p \<longleftrightarrow> prefix p s"
  by (simp add: startswith_iff_append prefix_def)

lemma contains_iff_append: "contains s p \<longleftrightarrow> (\<exists>pre post. s = pre @ p @ post)"
proof (induction s)
  case Nil
  then show ?case by auto
next
  case (Cons c s)
  show ?case
  proof
    assume "contains (c # s) p"
    then consider "startswith (c # s) p" | "contains s p" by auto
    then show "\<exists>pre post. c # s = pre @ p @ post"
    proof cases
      case 1
      then obtain rest where "c # s = p @ rest" by (auto simp: startswith_iff_append)
      then have "c # s = [] @ p @ rest" by simp
      then show ?thesis by blast
    next
      case 2
      then obtain pre post where "s = pre @ p @ post" using Cons.IH by blast
      then have "c # s = (c # pre) @ p @ post" by simp
      then show ?thesis by blast
    qed
  next
    assume "\<exists>pre post. c # s = pre @ p @ post"
    then obtain pre post where eq: "c # s = pre @ p @ post" by blast
    show "contains (c # s) p"
    proof (cases pre)
      case Nil
      then have "startswith (c # s) p" using eq by (auto simp: startswith_iff_append)
      then show ?thesis by simp
    next
      case (Cons d pre')
      then have "s = pre' @ p @ post" using eq by simp
      then have "contains s p" using Cons.IH by blast
      then show ?thesis by simp
    qed
  qed
qed

section \<open>PathGuard: acceptance\<close>

lemma normalize_loop_accepts:
  "\<exists>allowed \<in> set ds. startswith (lower (path_str requested)) (lower allowed)
   \<Longrightarrow> normalize_loop requested ALLOWED ds = Inr requested"
  by (induction ds) auto

lemma normalize_loop_denies:
  "\<not> (\<exists>allowed \<in> set ds. startswith (lower (path_str requested)) (lower allowed))
   \<Longrightarrow> normalize_loop requested ALLOWED ds =
       Inl (HTTPException 403
              (Denied ''Access Denied'' (path_str requested)
                 ''Requested path is outside allowed directories.'' ALLOWED))"
  by (induction ds) auto

text \<open>
  Claim C3. For every user-supplied path string \<open>P\<close>, \<open>normalize_path\<close> accepts \<open>P\<close>
  (returning the resolved path) if and only if the lower-cased string of the resolved form
  of \<open>P\<close> starts with the lower-cased string of at least one configured allowed root;
  otherwise it raises the 403 whose body carries the denied (resolved) path, the full list
  of allowed roots and the fixed message.
\<close>

theorem normalize_path_accepts_iff_prefixed:
  "normalize_path resolve ALLOWED P =
     (if \<exists>allowed \<in> set ALLOWED. \<exists>rest. lower (path_str (resolve P)) = lower allowed @ rest
      then Inr (resolve P)
      else Inl (HTTPException 403
                  (Denied ''Access Denied'' (path_str (resolve P))
                     ''Requested path is outside allowed directories.'' ALLOWED)))"
proof (cases "\<exists>allowed \<in> set ALLOWED. startswith (lower (path_str (resolve P))) (lower allowed)")
  case True
  then show ?thesis
    using normalize_loop_accepts [OF True, of ALLOWED]
    by (auto simp: normalize_path_def startswith_iff_append)
next
  case False
  then show ?thesis
    using normalize_loop_denies [OF False, of ALLOWED]
    by (auto simp: normalize_path_def startswith_iff_append)
qed

theorem normalize_path_accepts_iff_prefixed_witness:
  "normalize_path (\<lambda>_. [''srv'', ''Data'', ''a.txt'']) [''/tmp'', ''/srv/data''] ''~/a.txt''
     = Inr [''srv'', ''Data'', ''a.txt'']
   \<and> normalize_path (\<lambda>_. [''etc'', ''passwd'']) [''/tmp'', ''/srv/data''] ''/etc/passwd''
     = Inl (HTTPException 403
              (Denied ''Access Denied'' ''/etc/passwd''
                 ''Requested path is outside allowed directories.'' [''/tmp'', ''/srv/data'']))"
  using
    normalize_path_accepts_iff_prefixed
      [of "\<lambda>_. [''srv'', ''Data'', ''a.txt'']" "[''/tmp'', ''/srv/data'']" "''~/a.txt''"]
    normalize_path_accepts_iff_prefixed
      [of "\<lambda>_. [''etc'', ''passwd'']" "[''/tmp'', ''/srv/data'']" "''/etc/passwd''"]
  by (simp add: path_str_def lower_def lower_char_def)

section \<open>Unfolding the model\<close>

lemmas action_defs = then_do_def return_def raise_def lift_def try_except_def
lemmas host_defs = path_exists_def is_file_def is_dir_def read_text_def write_text_def
  unlink_def rmdir_def rmtree_def emit_def
lemmas example_defs = example_world_def example_tree_def pending_world_def resolve_absolute_def
lemmas delete_defs = delete_path_def delete_confirm_def delete_issue_def delete_try_def
  delete_except_def load_confirmations_def snapshot_items_def save_confirmations_def
  serializable_def
lemmas edit_defs = edit_file_def read_file_def write_file_def
lemmas search_defs = search_files_def os_walk_def dirnames_def filenames_def joinpath_def
  PurePath_match_def pattern_parts_def
lemmas eval_defs = delete_defs action_defs host_defs example_defs normalize_path_def path_str_def
  lower_def lower_char_def token_hex_def hexdigit_def CONFIRMATION_TTL_SECONDS_def
  timedelta_seconds_def Let_def

section \<open>ConfirmationStore: loading\<close>

lemma load_loop_lookup:
  "distinct (map fst items) \<Longrightarrow>
   map_of (load_loop now items valid) token =
     (case map_of items token of
        None \<Rightarrow> map_of valid token
      | Some d \<Rightarrow>
          (case j_expiry d of
             None \<Rightarrow> map_of valid token
           | Some e \<Rightarrow>
               if e > now
               then Some \<lparr>c_path = j_path d, c_recursive = j_recursive d, c_expiry = e\<rparr>
               else map_of valid token))"
proof (induction items arbitrary: valid token)
  case Nil
  then show ?case by simp
next
  case (Cons item items)
  obtain tok d where item: "item = (tok, d)" by (cases item)
  from Cons.prems item have dist: "distinct (map fst items)" and fresh: "map_of items tok = None"
    by (auto simp: map_of_eq_None_iff)
  show ?case
    using fresh by (auto simp: item Cons.IH [OF dist] update_conv' split: option.splits)
qed

text \<open>
  What \<open>load_confirmations\<close> does on the snapshots its \<open>except\<close> clause provides for.
  It returns exactly the entries of the persisted snapshot whose expiry is strictly after
  the current time: looking a token up in the result gives its entry when the snapshot
  holds it with a parsable expiry after \<open>now\<close>, and nothing otherwise (an expiry at or
  before \<open>now\<close> is dropped without an error). When the snapshot file is missing, fails
  with \<open>IOError\<close>, or holds text that is not JSON, the result is the empty mapping.
  Loading changes neither the tree nor the snapshot.
\<close>

lemma load_confirmations_unexpired_only:
  "(snapshot w = Missing \<or> snapshot w = Unreadable \<or> snapshot w = Malformed
      \<longrightarrow> snd (load_confirmations now w) = Inr [])
   \<and> (snapshot w = Object data \<and> distinct (map fst data)
      \<longrightarrow> (\<exists>valid. snd (load_confirmations now w) = Inr valid
            \<and> (\<forall>token. map_of valid token =
                  (case map_of data token of
                     None \<Rightarrow> None
                   | Some d \<Rightarrow>
                       (case j_expiry d of
                          None \<Rightarrow> None
                        | Some e \<Rightarrow>
                            if e > now
                            then Some \<lparr>c_path = j_path d, c_recursive = j_recursive d, c_expiry = e\<rparr>
                            else None)))))
   \<and> root (fst (load_confirmations now w)) = root w
   \<and> snapshot (fst (load_confirmations now w)) = snapshot w"
proof -
  have a: "snapshot w = Missing \<or> snapshot w = Unreadable \<or> snapshot w = Malformed
      \<longrightarrow> snd (load_confirmations now w) = Inr []"
    by (auto simp: load_confirmations_def snapshot_items_def)
  have b: "snapshot w = Object data \<and> distinct (map fst data)
      \<longrightarrow> (\<exists>valid. snd (load_confirmations now w) = Inr valid
            \<and> (\<forall>token. map_of valid token =
                  (case map_of data token of
                     None \<Rightarrow> None
                   | Some d \<Rightarrow>
                       (case j_expiry d of
                          None \<Rightarrow> None
                        | Some e \<Rightarrow>
                            if e > now
                            then Some \<lparr>c_path = j_path d, c_recursive = j_recursive d, c_expiry = e\<rparr>
                            else None))))"
    by (auto simp: load_confirmations_def snapshot_items_def load_loop_lookup split: option.splits)
  have c: "root (fst (load_confirmations now w)) = root w
     \<and> snapshot (fst (load_confirmations now w)) = snapshot w"
    by (simp add: load_confirmations_def snapshot_items_def emit_def split: snapshot_file.splits)
  from a b c show ?thesis by blast
qed

lemma load_confirmations_unexpired_only_example:
  "snd (load_confirmations 15 (example_world\<lparr>snapshot := Malformed\<rparr>)) = Inr []
   \<and> (\<exists>valid. snd (load_confirmations 15 pending_world) = Inr valid
        \<and> map_of valid ''abcde''
            = Some \<lparr>c_path = ''/root/a.txt'', c_recursive = False, c_expiry = 100\<rparr>
        \<and> map_of valid ''00000'' = None
        \<and> map_of valid ''fffff'' = None)"
proof -
  let ?data = "[(''abcde'', \<lparr>j_path = ''/root/a.txt'', j_recursive = False, j_expiry = Some 100\<rparr>),
               (''00000'', \<lparr>j_path = ''/root/sub'', j_recursive = True, j_expiry = Some 15\<rparr>),
               (''fffff'', \<lparr>j_path = ''/root/sub'', j_recursive = True, j_expiry = None\<rparr>)]"
  have m: "snapshot (example_world\<lparr>snapshot := Malformed\<rparr>) = Malformed" by simp
  have o: "snapshot pending_world = Object ?data \<and> distinct (map fst ?data)"
    by (simp add: pending_world_def)
  obtain valid where v: "snd (load_confirmations 15 pending_world) = Inr valid"
    and l: "\<forall>token. map_of valid token =
                  (case map_of ?data token of
                     None \<Rightarrow> None
                   | Some d \<Rightarrow>
                       (case j_expiry d of
                          None \<Rightarrow> None
                        | Some e \<Rightarrow>
                            if e > 15
                            then Some \<lparr>c_path = j_path d, c_recursive = j_recursive d, c_expiry = e\<rparr>
                            else None))"
    using load_confirmations_unexpired_only [where w = pending_world and data = ?data and now = 15] o by blast
  have "map_of valid ''abcde''
            = Some \<lparr>c_path = ''/root/a.txt'', c_recursive = False, c_expiry = 100\<rparr>"
    "map_of valid ''00000'' = None" "map_of valid ''fffff'' = None"
    by (simp_all add: l)
  with v m load_confirmations_unexpired_only [where w = "example_world\<lparr>snapshot := Malformed\<rparr>" and data = "[]" and now = 15]
  show ?thesis by blast
qed

text \<open>
  Claim C9 at a failing input. The expiry filter is as claimed, and so is the empty
  mapping for a missing file, an \<open>IOError\<close> and a \<open>JSONDecodeError\<close>
  (\<open>load_confirmations_unexpired_only\<close>). But the \<open>except\<close> clause names only those two
  exceptions. A snapshot file whose bytes do not decode makes \<open>json.load\<close> raise
  \<open>UnicodeDecodeError\<close>, and one holding JSON that is not an object makes
  \<open>data.items()\<close> raise \<open>AttributeError\<close>; neither is caught, and
  \<open>load_confirmations\<close> raises where the claim has it return the empty mapping.
\<close>

theorem load_confirmations_undecodable_raises:
  "snd (load_confirmations 15 (example_world\<lparr>snapshot := Undecodable\<rparr>)) = Inl UnicodeDecodeError
   \<and> snd (load_confirmations 15 (example_world\<lparr>snapshot := NotObject\<rparr>)) = Inl AttributeError"
  by (simp add: load_confirmations_def snapshot_items_def)

section \<open>DeleteWorkflow: a token presented with other parameters\<close>

lemma load_confirmations_Object:
  "snapshot w = Object data \<Longrightarrow>
   load_confirmations t w = (w\<lparr>log := log w @ [StatSnapshot, ReadSnapshot]\<rparr>, Inr (load_loop t data []))"
  by (simp add: load_confirmations_def snapshot_items_def emit_def)

text \<open>
  Claim C1, as the code has it. A \<open>delete_path\<close> request on an accepted path that
  supplies a stored, unexpired confirmation token whose stored path string or recursive
  flag differs from the request's fails with the 400 "parameters do not match", and the
  confirmation store is left as it was: the only host calls are the existence check and the
  read of the snapshot file, nothing is written, and the token stays pending.
\<close>

theorem delete_path_mismatch_keeps_token:
  assumes "snapshot w = Object data" and "distinct (map fst data)"
    and "map_of data token = Some d" and "j_expiry d = Some e"
    and "t_load < e" and "now \<le> e"
    and "dp_confirmation_token req = Some token" and "token \<noteq> []"
    and "normalize_path resolve ALLOWED (dp_path req) = Inr p"
    and "j_path d \<noteq> dp_path req \<or> j_recursive d \<noteq> dp_recursive req"
  shows "delete_path resolve ALLOWED rnd t_load now req w =
           (w\<lparr>log := log w @ [StatSnapshot, ReadSnapshot]\<rparr>,
            Inl (HTTPException 400
                   (Text ''Request parameters (path, recursive) do not match the original request for this token.'')))"
proof -
  have "map_of (load_loop t_load data []) token =
          Some \<lparr>c_path = j_path d, c_recursive = j_recursive d, c_expiry = e\<rparr>"
    using assms(2-5) by (simp add: load_loop_lookup)
  then show ?thesis
    using assms
    by (auto simp: delete_path_def delete_confirm_def action_defs load_confirmations_Object)
qed

theorem delete_path_mismatch_keeps_token_witness:
  "delete_path resolve_absolute [''/root''] [] 10 20
     \<lparr>dp_path = ''/root/sub'', dp_recursive = False, dp_confirmation_token = Some ''abcde''\<rparr>
     pending_world =
   (pending_world\<lparr>log := log pending_world @ [StatSnapshot, ReadSnapshot]\<rparr>,
    Inl (HTTPException 400
           (Text ''Request parameters (path, recursive) do not match the original request for this token.'')))"
  by (rule delete_path_mismatch_keeps_token
        [where data = "[(''abcde'', \<lparr>j_path = ''/root/a.txt'', j_recursive = False, j_expiry = Some 100\<rparr>),
               (''00000'', \<lparr>j_path = ''/root/sub'', j_recursive = True, j_expiry = Some 15\<rparr>),
               (''fffff'', \<lparr>j_path = ''/root/sub'', j_recursive = True, j_expiry = None\<rparr>)]"
           and d = "\<lparr>j_path = ''/root/a.txt'', j_recursive = False, j_expiry = Some 100\<rparr>"
           and e = 100 and p = "[''root'', ''sub'']" and token = "''abcde''"])
     (simp_all add: example_defs normalize_path_def path_str_def lower_def lower_char_def)

text \<open>
  The claim as stated says the token is removed by the mismatched attempt. On the example
  store the mismatched request leaves the snapshot unchanged, and a later request with the
  same token and the parameters it was issued for is carried out.
\<close>

theorem mismatched_token_not_removed:
  "snd (delete_path resolve_absolute [''/root''] [] 10 20
          \<lparr>dp_path = ''/root/sub'', dp_recursive = False, dp_confirmation_token = Some ''abcde''\<rparr>
          pending_world)
     = Inl (HTTPException 400
              (Text ''Request parameters (path, recursive) do not match the original request for this token.''))
   \<and> snapshot mismatch_world = snapshot pending_world
   \<and> snd (delete_path resolve_absolute [''/root''] [] 30 40
            \<lparr>dp_path = ''/root/a.txt'', dp_recursive = False,
               dp_confirmation_token = Some ''abcde''\<rparr> mismatch_world)
       = Inr (SuccessResponse ''Successfully deleted file: /root/a.txt'')"
  by (simp add: eval_defs mismatch_world_def)

section \<open>DeleteWorkflow: issue, consume, replay\<close>

lemma load_loop_distinct:
  "distinct (map fst valid) \<Longrightarrow> distinct (map fst (load_loop now items valid))"
  by (induction items arbitrary: valid) (auto simp: distinct_update split: option.splits)

lemma load_confirmations_loadable:
  assumes "snapshot w \<noteq> NotObject" and "snapshot w \<noteq> Undecodable"
  obtains evs pending where
    "load_confirmations t w = (w\<lparr>log := log w @ evs\<rparr>, Inr pending)"
    "distinct (map fst pending)"
    "set evs \<subseteq> {StatSnapshot, ReadSnapshot}"
proof (cases "snapshot w")
  case Missing
  then have "load_confirmations t w = (w\<lparr>log := log w @ [StatSnapshot]\<rparr>, Inr [])"
    by (simp add: load_confirmations_def snapshot_items_def emit_def)
  then show ?thesis using that [of "[StatSnapshot]" "[]"] by simp
next
  case Unreadable
  then have "load_confirmations t w = (w\<lparr>log := log w @ [StatSnapshot, ReadSnapshot]\<rparr>, Inr [])"
    by (simp add: load_confirmations_def snapshot_items_def emit_def)
  then show ?thesis using that [of "[StatSnapshot, ReadSnapshot]" "[]"] by simp
next
  case Malformed
  then have "load_confirmations t w = (w\<lparr>log := log w @ [StatSnapshot, ReadSnapshot]\<rparr>, Inr [])"
    by (simp add: load_confirmations_def snapshot_items_def emit_def)
  then show ?thesis using that [of "[StatSnapshot, ReadSnapshot]" "[]"] by simp
next
  case NotObject
  then show ?thesis using assms by simp
next
  case Undecodable
  then show ?thesis using assms by simp
next
  case (Object data)
  then have "load_confirmations t w =
      (w\<lparr>log := log w @ [StatSnapshot, ReadSnapshot]\<rparr>, Inr (load_loop t data []))"
    by (rule load_confirmations_Object)
  moreover have "distinct (map fst (load_loop t data []))"
    by (rule load_loop_distinct) simp
  ultimately show ?thesis using that [of "[StatSnapshot, ReadSnapshot]" "load_loop t data []"] by simp
qed

lemma map_of_serializable:
  "map_of (serializable xs) token =
     map_option (\<lambda>d. \<lparr>j_path = c_path d, j_recursive = c_recursive d, j_expiry = Some (c_expiry d)\<rparr>)
       (map_of xs token)"
  by (induction xs) (auto simp: serializable_def)

lemma keys_serializable: "map fst (serializable xs) = map fst xs"
  by (induction xs) (auto simp: serializable_def)

lemma issued_token_length: "length rnd = 3 \<Longrightarrow> length (take 5 (token_hex rnd)) = 5"
proof -
  assume "length rnd = 3"
  then obtain a b c where "rnd = [a, b, c]"
    by (cases rnd; cases "tl rnd"; cases "tl (tl rnd)") auto
  then show ?thesis by (simp add: token_hex_def)
qed

lemma lookup_remove:
  "lookup t p = Inr n \<Longrightarrow> p \<noteq> [] \<Longrightarrow> lookup (remove t p) p = Inl FileNotFoundError"
proof (induction t p rule: remove.induct)
  case (1 n)
  then show ?case by simp
next
  case (2 content c cs)
  then show ?case by simp
next
  case (3 entries c)
  then show ?case by (simp add: delete_conv')
next
  case (4 entries c d ds)
  then show ?case by (auto simp: update_conv' split: option.splits)
qed

lemma delete_issue_step:
  assumes "load_confirmations a1 w = (w\<lparr>log := log w @ evs\<rparr>, Inr pending)"
    and "snapshot_writable w"
    and "normalize_path resolve ALLOWED X = Inr p"
    and "\<not> denied w p" and "lookup (root w) p = Inr n"
  shows "delete_path resolve ALLOWED rnd a1 b1
           \<lparr>dp_path = X, dp_recursive = R, dp_confirmation_token = None\<rparr> w =
         (w\<lparr>log := log w @ evs @ [Stat p, WriteSnapshot],
            snapshot := Object (serializable
               (AList.update (take 5 (token_hex rnd))
                  \<lparr>c_path = X, c_recursive = R, c_expiry = b1 + 60000000\<rparr> pending))\<rparr>,
          Inr (ConfirmationRequiredResponse
                 (''`Confirm deletion of file: '' @ X @ '' with token '' @ take 5 (token_hex rnd) @ ''`'')
                 (take 5 (token_hex rnd)) (b1 + 60000000)))"
  using assms
  by (simp add: delete_path_def delete_issue_def action_defs path_exists_def emit_def
        save_confirmations_def CONFIRMATION_TTL_SECONDS_def timedelta_seconds_def Let_def)

lemma delete_try_succeeds:
  assumes "\<not> denied w p" and "lookup (root w) p = Inr n" and "p \<noteq> []"
    and "deletable n (dp_recursive data)"
  shows "root (fst (delete_try data p w)) = remove (root w) p
       \<and> snapshot (fst (delete_try data p w)) = snapshot w
       \<and> snapshot_writable (fst (delete_try data p w)) = snapshot_writable w
       \<and> (\<exists>msg. snd (delete_try data p w) = Inr (SuccessResponse msg))"
proof (cases n)
  case (File content)
  then show ?thesis using assms
    by (simp add: delete_try_def action_defs host_defs)
next
  case (Dir entries)
  then show ?thesis using assms
    by (auto simp: delete_try_def action_defs host_defs deletable_def)
qed


lemma delete_confirm_step:
  assumes snap: "snapshot w = Object data" and dist: "distinct (map fst data)"
    and stored: "map_of data T = Some \<lparr>j_path = X, j_recursive = R, j_expiry = Some e\<rparr>"
    and times: "a2 < e" "b2 \<le> e" and tok: "T \<noteq> []"
    and acc: "normalize_path resolve ALLOWED X = Inr p"
    and host: "\<not> denied w p" "lookup (root w) p = Inr n" "p \<noteq> []" "deletable n R"
    and wr: "snapshot_writable w"
  shows "root (fst (delete_path resolve ALLOWED rnd a2 b2
                 \<lparr>dp_path = X, dp_recursive = R, dp_confirmation_token = Some T\<rparr> w))
           = remove (root w) p
       \<and> snapshot (fst (delete_path resolve ALLOWED rnd a2 b2
                 \<lparr>dp_path = X, dp_recursive = R, dp_confirmation_token = Some T\<rparr> w))
           = Object (serializable (AList.delete T (load_loop a2 data [])))
       \<and> (\<exists>msg. snd (delete_path resolve ALLOWED rnd a2 b2
                 \<lparr>dp_path = X, dp_recursive = R, dp_confirmation_token = Some T\<rparr> w)
              = Inr (SuccessResponse msg))"
proof -
  let ?data = "\<lparr>dp_path = X, dp_recursive = R, dp_confirmation_token = Some T\<rparr>"
  let ?pending = "load_loop a2 data []"
  let ?w1 = "save_confirmations (AList.delete T ?pending)
               (w\<lparr>log := log w @ [StatSnapshot, ReadSnapshot]\<rparr>)"
  have found: "map_of ?pending T = Some \<lparr>c_path = X, c_recursive = R, c_expiry = e\<rparr>"
    using dist stored times by (simp add: load_loop_lookup)
  have w1: "\<not> denied ?w1 p" "lookup (root ?w1) p = Inr n" "root ?w1 = root w"
    "snapshot ?w1 = Object (serializable (AList.delete T ?pending))"
    "snapshot_writable ?w1"
    using host wr by (simp_all add: save_confirmations_def emit_def)
  have tried: "root (fst (delete_try ?data p ?w1)) = remove (root ?w1) p
       \<and> snapshot (fst (delete_try ?data p ?w1)) = snapshot ?w1
       \<and> snapshot_writable (fst (delete_try ?data p ?w1)) = snapshot_writable ?w1
       \<and> (\<exists>msg. snd (delete_try ?data p ?w1) = Inr (SuccessResponse msg))"
    by (rule delete_try_succeeds [OF w1(1) w1(2) host(3)]) (simp add: host)
  have run: "delete_path resolve ALLOWED rnd a2 b2 ?data w =
          try_except (delete_try ?data p) (delete_except ?data) ?w1"
    using found times tok acc
    by (simp add: delete_path_def delete_confirm_def action_defs load_confirmations_Object [OF snap])
  obtain w2 msg where res: "delete_try ?data p ?w1 = (w2, Inr (SuccessResponse msg))"
    using tried by (cases "delete_try ?data p ?w1") auto
  have "try_except (delete_try ?data p) (delete_except ?data) ?w1 = (w2, Inr (SuccessResponse msg))"
    by (simp add: try_except_def res)
  with run res tried w1 show ?thesis by simp
qed

lemma delete_replay_step:
  assumes snap: "snapshot w = Object (serializable (AList.delete T pending))"
    and dist: "distinct (map fst pending)" and tok: "T \<noteq> []"
    and acc: "normalize_path resolve ALLOWED X = Inr p"
  shows "snd (delete_path resolve ALLOWED rnd a3 b3
                 \<lparr>dp_path = X, dp_recursive = R, dp_confirmation_token = Some T\<rparr> w)
           = Inl (HTTPException 400 (Text ''Invalid or expired confirmation token.''))"
proof -
  have "distinct (map fst (serializable (AList.delete T pending)))"
    using dist by (simp add: keys_serializable distinct_delete)
  then have "map_of (load_loop a3 (serializable (AList.delete T pending)) []) T = None"
    by (simp add: load_loop_lookup map_of_serializable delete_conv')
  then show ?thesis
    using tok acc
    by (simp add: delete_path_def delete_confirm_def action_defs load_confirmations_Object [OF snap])
qed

text \<open>
  Claim C4, as the code has it. Let \<open>X\<close> be an accepted path that exists and that the
  confirmation step can delete with flag \<open>R\<close>, on a host that lets the snapshot be
  written. A \<open>delete_path\<close> request without a token answers with a five-character token
  \<open>T\<close> and its expiry, sixty seconds after the request, and stores \<open>T\<close> bound to
  \<open>(X, R)\<close>. A following request with \<open>T\<close> and the same \<open>(X, R)\<close>, loaded before
  the expiry and handled no later than it, succeeds and removes \<open>X\<close>. A further request
  with \<open>T\<close> fails with the 400 "Invalid or expired confirmation token.", whatever the
  time: the entry went when it was first consumed.
\<close>

theorem delete_token_single_use:
  assumes loadable: "snapshot w \<noteq> NotObject" "snapshot w \<noteq> Undecodable"
    and wr: "snapshot_writable w"
    and rnd: "length rnd = 3"
    and acc: "normalize_path resolve ALLOWED X = Inr p"
    and host: "\<not> denied w p" "lookup (root w) p = Inr n" "p \<noteq> []" "deletable n R"
    and times: "a2 < b1 + timedelta_seconds CONFIRMATION_TTL_SECONDS"
      "b2 \<le> b1 + timedelta_seconds CONFIRMATION_TTL_SECONDS"
  shows "let T = take 5 (token_hex rnd);
             issued = delete_path resolve ALLOWED rnd a1 b1
                        \<lparr>dp_path = X, dp_recursive = R, dp_confirmation_token = None\<rparr> w;
             first = delete_path resolve ALLOWED rnd2 a2 b2
                        \<lparr>dp_path = X, dp_recursive = R, dp_confirmation_token = Some T\<rparr> (fst issued);
             second = delete_path resolve ALLOWED rnd3 a3 b3
                        \<lparr>dp_path = X, dp_recursive = R, dp_confirmation_token = Some T\<rparr> (fst first)
         in snd issued =
              Inr (ConfirmationRequiredResponse
                     (''`Confirm deletion of file: '' @ X @ '' with token '' @ T @ ''`'') T
                     (b1 + timedelta_seconds CONFIRMATION_TTL_SECONDS))
          \<and> (\<exists>data. snapshot (fst issued) = Object data
                \<and> map_of data T =
                    Some \<lparr>j_path = X, j_recursive = R,
                          j_expiry = Some (b1 + timedelta_seconds CONFIRMATION_TTL_SECONDS)\<rparr>)
          \<and> (\<exists>msg. snd first = Inr (SuccessResponse msg))
          \<and> lookup (root (fst first)) p = Inl FileNotFoundError
          \<and> snd second = Inl (HTTPException 400 (Text ''Invalid or expired confirmation token.''))"
proof -
  define T where "T = take 5 (token_hex rnd)"
  define e where "e = b1 + 60000000"
  define new where "new = \<lparr>c_path = X, c_recursive = R, c_expiry = e\<rparr>"
  let ?req = "\<lambda>t. \<lparr>dp_path = X, dp_recursive = R, dp_confirmation_token = t\<rparr>"
  have ttl: "b1 + timedelta_seconds CONFIRMATION_TTL_SECONDS = e"
    by (simp add: e_def timedelta_seconds_def CONFIRMATION_TTL_SECONDS_def)
  have tok: "T \<noteq> []"
    using issued_token_length [OF rnd] unfolding T_def by auto
  obtain evs pending where load:
    "load_confirmations a1 w = (w\<lparr>log := log w @ evs\<rparr>, Inr pending)"
    and dist: "distinct (map fst pending)"
    using load_confirmations_loadable [OF loadable] by metis
  define data1 where "data1 = serializable (AList.update T new pending)"
  define w1 where "w1 = w\<lparr>log := log w @ evs @ [Stat p, WriteSnapshot], snapshot := Object data1\<rparr>"
  have issued: "delete_path resolve ALLOWED rnd a1 b1 (?req None) w =
      (w1, Inr (ConfirmationRequiredResponse
                 (''`Confirm deletion of file: '' @ X @ '' with token '' @ T @ ''`'') T e))"
    using delete_issue_step [OF load wr acc host(1) host(2), of rnd b1 R]
    by (simp add: w1_def data1_def new_def e_def T_def)
  have stored: "map_of data1 T = Some \<lparr>j_path = X, j_recursive = R, j_expiry = Some e\<rparr>"
    by (simp add: data1_def map_of_serializable update_conv' new_def)
  have dist1: "distinct (map fst data1)"
    using dist by (simp add: data1_def keys_serializable distinct_update)
  have w1: "snapshot w1 = Object data1" "\<not> denied w1 p" "lookup (root w1) p = Inr n"
    "snapshot_writable w1"
    using host wr by (simp_all add: w1_def)
  define r2 where "r2 = delete_path resolve ALLOWED rnd2 a2 b2 (?req (Some T)) w1"
  have first: "root (fst r2) = remove (root w1) p"
    "snapshot (fst r2) = Object (serializable (AList.delete T (load_loop a2 data1 [])))"
    "\<exists>msg. snd r2 = Inr (SuccessResponse msg)"
    using delete_confirm_step [OF w1(1) dist1 stored _ _ tok acc w1(2) w1(3) host(3) host(4) w1(4),
        of a2 b2 rnd2] times
    unfolding r2_def ttl by simp_all
  have gone: "lookup (root (fst r2)) p = Inl FileNotFoundError"
    using lookup_remove [OF w1(3) host(3)] first(1) by simp
  have second: "snd (delete_path resolve ALLOWED rnd3 a3 b3 (?req (Some T)) (fst r2))
           = Inl (HTTPException 400 (Text ''Invalid or expired confirmation token.''))"
    by (rule delete_replay_step [OF first(2) _ tok acc]) (simp add: load_loop_distinct)
  show ?thesis
    using issued stored w1(1) first(3) gone second
    unfolding Let_def T_def [symmetric] ttl r2_def
    by simp
qed

theorem delete_token_single_use_witness:
  "let T = take 5 (token_hex [0xAB, 0xCD, 0xEF]);
       issued = delete_path resolve_absolute [''/root''] [0xAB, 0xCD, 0xEF] 0 1
                  \<lparr>dp_path = ''/root/a.txt'', dp_recursive = False, dp_confirmation_token = None\<rparr>
                  example_world;
       first = delete_path resolve_absolute [''/root''] [] 2 3
                  \<lparr>dp_path = ''/root/a.txt'', dp_recursive = False, dp_confirmation_token = Some T\<rparr>
                  (fst issued);
       second = delete_path resolve_absolute [''/root''] [] 4 5
                  \<lparr>dp_path = ''/root/a.txt'', dp_recursive = False, dp_confirmation_token = Some T\<rparr>
                  (fst first)
   in snd issued =
        Inr (ConfirmationRequiredResponse
               (''`Confirm deletion of file: '' @ ''/root/a.txt'' @ '' with token '' @ T @ ''`'') T
               (1 + timedelta_seconds CONFIRMATION_TTL_SECONDS))
    \<and> (\<exists>data. snapshot (fst issued) = Object data
          \<and> map_of data T =
              Some \<lparr>j_path = ''/root/a.txt'', j_recursive = False,
                    j_expiry = Some (1 + timedelta_seconds CONFIRMATION_TTL_SECONDS)\<rparr>)
    \<and> (\<exists>msg. snd first = Inr (SuccessResponse msg))
    \<and> lookup (root (fst first)) [''root'', ''a.txt''] = Inl FileNotFoundError
    \<and> snd second = Inl (HTTPException 400 (Text ''Invalid or expired confirmation token.''))"
proof -
  have h: "snapshot example_world \<noteq> NotObject" "snapshot example_world \<noteq> Undecodable"
    "snapshot_writable example_world"
    "length [0xAB, 0xCD, 0xEF :: 8 word] = 3"
    "normalize_path resolve_absolute [''/root''] ''/root/a.txt'' = Inr [''root'', ''a.txt'']"
    "\<not> denied example_world [''root'', ''a.txt'']"
    "lookup (root example_world) [''root'', ''a.txt''] = Inr (File ''foo baz foo'')"
    "[''root'', ''a.txt''] \<noteq> []"
    "deletable (File ''foo baz foo'') False"
    "(2::int) < 1 + timedelta_seconds CONFIRMATION_TTL_SECONDS"
    "(3::int) \<le> 1 + timedelta_seconds CONFIRMATION_TTL_SECONDS"
    by (simp_all add: eval_defs deletable_def)
  show ?thesis
    by (rule delete_token_single_use [OF h])
qed

text \<open>
  The claim as stated gives the replayed token the kind NotFound (404). On the example
  world the token is issued, consumed once, and the replay is answered with status 400.
\<close>

theorem replayed_token_is_400:
  "snd (delete_path resolve_absolute [''/root''] [0xAB, 0xCD, 0xEF] 0 1
          (example_delete_request None) example_world)
     = Inr (ConfirmationRequiredResponse
              ''`Confirm deletion of file: /root/a.txt with token abcde`'' ''abcde'' 60000001)
   \<and> snd (delete_path resolve_absolute [''/root''] [] 2 3
            (example_delete_request (Some ''abcde'')) issued_world)
     = Inr (SuccessResponse ''Successfully deleted file: /root/a.txt'')
   \<and> snd (delete_path resolve_absolute [''/root''] [] 4 5
            (example_delete_request (Some ''abcde'')) consumed_world)
     = Inl (HTTPException 400 (Text ''Invalid or expired confirmation token.''))"
  by (simp add: eval_defs issued_world_def consumed_world_def example_delete_request_def)

section \<open>FileOps: editing\<close>

lemma replace_first_leftmost:
  "contains s old \<Longrightarrow>
   \<exists>pre post. s = pre @ old @ post
     \<and> replace_first s old new = pre @ new @ post
     \<and> (\<forall>pre' post'. s = pre' @ old @ post' \<longrightarrow> length pre \<le> length pre')"
proof (induction s)
  case Nil
  then show ?case by simp
next
  case (Cons c s)
  show ?case
  proof (cases "startswith (c # s) old")
    case True
    then obtain rest where r: "c # s = old @ rest" by (auto simp: startswith_iff_append)
    then have "c # s = [] @ old @ rest \<and> replace_first (c # s) old new = [] @ new @ rest"
      using True by (metis append_Nil append_eq_conv_conj replace_first.simps(2))
    then show ?thesis by (metis list.size(3) le0)
  next
    case False
    then have "contains s old" using Cons.prems by simp
    then obtain pre post where p: "s = pre @ old @ post"
      "replace_first s old new = pre @ new @ post"
      "\<forall>pre' post'. s = pre' @ old @ post' \<longrightarrow> length pre \<le> length pre'"
      using Cons.IH by blast
    have a: "c # s = (c # pre) @ old @ post" using p(1) by simp
    have b: "replace_first (c # s) old new = (c # pre) @ new @ post"
      using False p(2) by simp
    have "\<forall>pre' post'. c # s = pre' @ old @ post' \<longrightarrow> length (c # pre) \<le> length pre'"
    proof (intro allI impI)
      fix pre' post'
      assume eq: "c # s = pre' @ old @ post'"
      show "length (c # pre) \<le> length pre'"
      proof (cases pre')
        case Nil
        then have "startswith (c # s) old" using eq by (auto simp: startswith_iff_append)
        then show ?thesis using False by simp
      next
        case (Cons d pre'')
        then have "s = pre'' @ old @ post'" using eq by simp
        then have "length pre \<le> length pre''" using p(3) by blast
        then show ?thesis using Cons by simp
      qed
    qed
    with a b show ?thesis by blast
  qed
qed

lemma apply_edits_example:
  "apply_edits [\<lparr>oldText = ''foo'', newText = ''bar''\<rparr>] ''foo baz foo'' = Inr ''bar baz foo''"
  by simp

lemma apply_edits_raises_400:
  "apply_edits edits s = Inl e \<Longrightarrow> \<exists>d. e = HTTPException 400 d"
  by (induction edits arbitrary: s) (auto split: if_splits)

lemma edit_file_all_or_nothing:
  assumes "normalize_path resolve ALLOWED (ef_path data) = Inr p"
    and "\<not> denied w p" and "lookup (root w) p = Inr (File content)"
    and "apply_edits (ef_edits data) (universal_newlines content) = Inl e"
  shows "edit_file unified_diff resolve ALLOWED data w =
           (w\<lparr>log := log w @ [ReadText p]\<rparr>,
            Inl (HTTPException 500
                   (Caused (''Failed to write edited file '' @ ef_path data @ '': '') e)))"
proof -
  obtain d where "e = HTTPException 400 d"
    using apply_edits_raises_400 [OF assms(4)] by blast
  then show ?thesis
    using assms by (simp add: edit_file_def action_defs read_text_def emit_def)
qed

text \<open>
  Claim C8. An \<open>edit_file\<close> request with \<open>dryRun\<close> set, on an accepted path naming a
  readable file, whose edits all apply, answers with the unified line diff between the
  original content (the text of the file as read) and the fully modified content (the
  lines of each, with their line ends, given to \<open>unified_diff\<close> under the names
  \<open>a/path\<close> and \<open>b/path\<close>). The
  only host call is the read of the file: nothing is written and the world is otherwise as
  it was.
\<close>

theorem edit_file_dry_run:
  assumes "normalize_path resolve ALLOWED (ef_path data) = Inr p"
    and "\<not> denied w p" and "lookup (root w) p = Inr (File content)"
    and "original = universal_newlines content"
    and "apply_edits (ef_edits data) original = Inr modified"
    and "ef_dryRun data"
  shows "edit_file unified_diff resolve ALLOWED data w =
           (w\<lparr>log := log w @ [ReadText p]\<rparr>,
            Inr (DiffResponse
                   (concat (unified_diff (splitlines [] original) (splitlines [] modified)
                              (''a/'' @ ef_path data) (''b/'' @ ef_path data)))))"
  using assms by (simp add: edit_file_def action_defs read_text_def emit_def)

theorem edit_file_dry_run_witness:
  "edit_file naive_diff resolve_absolute [''/root'']
     \<lparr>ef_path = ''/root/a.txt'', ef_edits = [\<lparr>oldText = ''foo'', newText = ''bar''\<rparr>],
      ef_dryRun = True\<rparr> example_world =
   (example_world\<lparr>log := log example_world @ [ReadText [''root'', ''a.txt'']]\<rparr>,
    Inr (DiffResponse
           (concat (naive_diff (splitlines [] ''foo baz foo'') (splitlines [] ''bar baz foo'')
                      (''a/'' @ ''/root/a.txt'') (''b/'' @ ''/root/a.txt'')))))"
proof -
  have h: "normalize_path resolve_absolute [''/root'']
       (ef_path \<lparr>ef_path = ''/root/a.txt'', ef_edits = [\<lparr>oldText = ''foo'', newText = ''bar''\<rparr>],
      ef_dryRun = True\<rparr>) = Inr [''root'', ''a.txt'']"
    "\<not> denied example_world [''root'', ''a.txt'']"
    "lookup (root example_world) [''root'', ''a.txt''] = Inr (File ''foo baz foo'')"
    "''foo baz foo'' = universal_newlines ''foo baz foo''"
    "apply_edits (ef_edits \<lparr>ef_path = ''/root/a.txt'', ef_edits = [\<lparr>oldText = ''foo'', newText = ''bar''\<rparr>],
      ef_dryRun = True\<rparr>) ''foo baz foo'' = Inr ''bar baz foo''"
    "ef_dryRun \<lparr>ef_path = ''/root/a.txt'', ef_edits = [\<lparr>oldText = ''foo'', newText = ''bar''\<rparr>],
      ef_dryRun = True\<rparr>"
    by (simp_all add: eval_defs)
  show ?thesis
    using edit_file_dry_run [OF h, of naive_diff] by simp
qed

text \<open>
  Claim C7 at a failing input. The edits are applied in order, each to the leftmost
  occurrence (\<open>replace_first_leftmost\<close>), and nothing is written when one of them does
  not apply (\<open>edit_file_all_or_nothing\<close>). But the 400 raised for the missing
  \<open>oldText\<close> is raised inside the \<open>try\<close> block and caught by its
  \<open>except Exception\<close> clause, so the request is answered with status 500.
\<close>

theorem edit_file_missing_oldText_is_500:
  "edit_file naive_diff resolve_absolute [''/root'']
     \<lparr>ef_path = ''/root/a.txt'',
      ef_edits = [\<lparr>oldText = ''foo'', newText = ''bar''\<rparr>, \<lparr>oldText = ''qux'', newText = ''x''\<rparr>],
      ef_dryRun = False\<rparr> example_world =
   (example_world\<lparr>log := log example_world @ [ReadText [''root'', ''a.txt'']]\<rparr>,
    Inl (HTTPException 500
           (Caused ''Failed to write edited file /root/a.txt: ''
              (HTTPException 400
                 (Text (''Edit failed: oldText not found in content: '' @ [CHR 0x27] @ ''qux...'' @ [CHR 0x27]))))))"
  by (simp add: eval_defs edit_defs)

section \<open>DirOps: searching\<close>

text \<open>
  Claim C6 at a failing input. On the tree holding \<open>/root/a.txt\<close>, \<open>/root/sub/a.log\<close>
  and \<open>/root/sub/deep/a.md\<close>, the pattern \<open>a.\<close> with \<open>excludePatterns = ["sub"]\<close>
  returns \<open>/root/sub/deep/a.md\<close>, a path inside the excluded subtree: the \<open>continue\<close>
  skips the entries of the matching directory only, and the walk goes on into its
  subdirectories, whose own paths do not match the pattern.
\<close>

theorem search_files_exclude_leaks_nested:
  "snd (search_files PurePath_match resolve_absolute [''/root'']
          \<lparr>sf_path = ''/root'', sf_pattern = ''a.'', sf_excludePatterns = Some [''sub'']\<rparr>
          example_world)
   = Inr (Matches [''/root/a.txt'', ''/root/sub/deep/a.md''])"
  by (simp add: search_defs eval_defs)

text \<open>The example of the specification itself comes out as stated.\<close>

lemma search_files_spec_example:
  "snd (search_files PurePath_match resolve_absolute [''/root'']
          \<lparr>sf_path = ''/root'', sf_pattern = ''a.'', sf_excludePatterns = Some []\<rparr>
          (example_world\<lparr>root := spec_tree\<rparr>))
     = Inr (Matches [''/root/a.txt'', ''/root/sub/a.log''])
   \<and> snd (search_files PurePath_match resolve_absolute [''/root'']
          \<lparr>sf_path = ''/root'', sf_pattern = ''a.'', sf_excludePatterns = Some [''sub'']\<rparr>
          (example_world\<lparr>root := spec_tree\<rparr>))
     = Inr (Matches [''/root/a.txt''])"
  by (simp add: search_defs eval_defs spec_tree_def)

lemma items_loop_allowed:
  "m \<in> set (items_loop ALLOWED pattern root_path items)
   \<Longrightarrow> \<exists>alt \<in> set ALLOWED. prefix alt m"
  by (induction items) (auto simp: list_ex_iff startswith_iff_prefix split: if_splits)

lemma walk_loop_allowed:
  "walk_loop path_match ALLOWED data triples results = Inr out
   \<Longrightarrow> \<forall>m \<in> set results. \<exists>alt \<in> set ALLOWED. prefix alt m
   \<Longrightarrow> \<forall>m \<in> set out. \<exists>alt \<in> set ALLOWED. prefix alt m"
proof (induction triples arbitrary: results)
  case Nil
  then show ?case by simp
next
  case (Cons triple triples)
  obtain root_dir dirs files where t: "triple = (root_dir, dirs, files)" by (cases triple)
  from Cons.prems(1) obtain patterns excluded where
    p: "sf_excludePatterns data = Some patterns"
    and e: "excluded_loop path_match root_dir patterns = Inr excluded"
    by (auto simp: t split: option.splits sum.splits)
  show ?case
  proof (cases excluded)
    case True
    then have "walk_loop path_match ALLOWED data triples results = Inr out"
      using Cons.prems(1) p e by (simp add: t)
    then show ?thesis using Cons.IH Cons.prems(2) by blast
  next
    case False
    let ?more = "items_loop ALLOWED (sf_pattern data) root_dir (files @ dirs)"
    have "walk_loop path_match ALLOWED data triples (results @ ?more) = Inr out"
      using Cons.prems(1) p e False by (simp add: t)
    moreover have "\<forall>m \<in> set (results @ ?more). \<exists>alt \<in> set ALLOWED. prefix alt m"
      using Cons.prems(2) items_loop_allowed by auto
    ultimately show ?thesis using Cons.IH by blast
  qed
qed

lemma path_str_slash: "\<exists>rest. path_str q = CHR ''/'' # rest"
  by (cases q) (auto simp: path_str_def)

text \<open>
  Claim C10. When \<open>search_files\<close> returns matches other than the placeholder, every one of
  them starts, compared case-sensitively, with one of the configured allowed-directory
  strings. So a path whose string has an allowed root as a prefix only when both are
  lower-cased is never among the matches, although \<open>normalize_path\<close> accepts it when it
  is the resolved target of a request.
\<close>

theorem search_files_matches_case_sensitive:
  assumes "search_files path_match resolve ALLOWED data w = (w', Inr (Matches ms))"
  shows "(ms \<noteq> [''No matches found''] \<longrightarrow> (\<forall>m \<in> set ms. \<exists>alt \<in> set ALLOWED. prefix alt m))
       \<and> (\<forall>q. (\<exists>alt \<in> set ALLOWED. prefix (lower alt) (lower (path_str q)))
                \<and> (\<forall>alt \<in> set ALLOWED. \<not> prefix alt (path_str q))
             \<longrightarrow> path_str q \<notin> set ms
                 \<and> normalize_path (\<lambda>P. q) ALLOWED (path_str q) = Inr q)"
proof -
  from assms obtain triples results where
    loop: "walk_loop path_match ALLOWED data triples [] = Inr results"
    and ms: "ms = (if results = [] then [''No matches found''] else results)"
    by (auto simp: search_files_def action_defs os_walk_def split: sum.splits)
  have allowed: "\<forall>m \<in> set results. \<exists>alt \<in> set ALLOWED. prefix alt m"
    using walk_loop_allowed [OF loop] by simp
  have first: "ms \<noteq> [''No matches found''] \<longrightarrow> (\<forall>m \<in> set ms. \<exists>alt \<in> set ALLOWED. prefix alt m)"
    using allowed ms by (auto split: if_splits)
  have second: "path_str q \<notin> set ms \<and> normalize_path (\<lambda>P. q) ALLOWED (path_str q) = Inr q"
    if ci: "\<exists>alt \<in> set ALLOWED. prefix (lower alt) (lower (path_str q))"
      and cs: "\<forall>alt \<in> set ALLOWED. \<not> prefix alt (path_str q)" for q
  proof
    have "path_str q \<noteq> ''No matches found''"
      using path_str_slash [of q] by auto
    moreover have "path_str q \<notin> set results" using allowed cs by blast
    ultimately show "path_str q \<notin> set ms" using ms by (auto split: if_splits)
    show "normalize_path (\<lambda>P. q) ALLOWED (path_str q) = Inr q"
      using ci normalize_loop_accepts [of ALLOWED q ALLOWED]
      by (simp add: normalize_path_def startswith_iff_prefix)
  qed
  from first second show ?thesis by blast
qed

theorem search_files_matches_case_sensitive_witness:
  "snd (search_files PurePath_match resolve_absolute [''/Root'']
          \<lparr>sf_path = ''/root'', sf_pattern = ''a.'', sf_excludePatterns = Some []\<rparr>
          example_world)
     = Inr (Matches [''No matches found''])
   \<and> lookup (root example_world) [''root'', ''a.txt''] = Inr (File ''foo baz foo'')
   \<and> contains (lower ''a.txt'') (lower ''a.'')
   \<and> path_str [''root'', ''a.txt''] \<notin> set [''No matches found'']
   \<and> normalize_path (\<lambda>P. [''root'', ''a.txt'']) [''/Root''] (path_str [''root'', ''a.txt''])
       = Inr [''root'', ''a.txt'']"
proof -
  let ?r = "search_files PurePath_match resolve_absolute [''/Root'']
          \<lparr>sf_path = ''/root'', sf_pattern = ''a.'', sf_excludePatterns = Some []\<rparr>
          example_world"
  have run: "?r = (fst ?r, Inr (Matches [''No matches found'']))"
    by (simp add: search_defs eval_defs)
  have q: "(\<exists>alt \<in> set [''/Root'']. prefix (lower alt) (lower (path_str [''root'', ''a.txt''])))
         \<and> (\<forall>alt \<in> set [''/Root'']. \<not> prefix alt (path_str [''root'', ''a.txt'']))"
    by (simp add: path_str_def lower_def lower_char_def)
  have ex: "lookup (root example_world) [''root'', ''a.txt''] = Inr (File ''foo baz foo'')"
    "contains (lower ''a.txt'') (lower ''a.'')"
    by (simp_all add: eval_defs)
  from search_files_matches_case_sensitive [OF run] q ex run show ?thesis
    by (metis snd_conv)
qed

section \<open>PathGuard comes first\<close>

lemma load_confirmations_frame:
  "root (fst (load_confirmations t w)) = root w
   \<and> snapshot (fst (load_confirmations t w)) = snapshot w
   \<and> (\<exists>evs. log (fst (load_confirmations t w)) = log w @ evs
          \<and> set evs \<subseteq> {StatSnapshot, ReadSnapshot})
   \<and> (snapshot w = NotObject \<longrightarrow> snd (load_confirmations t w) = Inl AttributeError)
   \<and> (snapshot w = Undecodable \<longrightarrow> snd (load_confirmations t w) = Inl UnicodeDecodeError)
   \<and> (snapshot w \<noteq> NotObject \<and> snapshot w \<noteq> Undecodable
        \<longrightarrow> (\<exists>pending. snd (load_confirmations t w) = Inr pending))"
  by (cases "snapshot w") (simp_all add: load_confirmations_def snapshot_items_def emit_def)

lemma delete_path_denied:
  assumes "normalize_path resolve ALLOWED (dp_path data) = Inl e"
  shows "fst (delete_path resolve ALLOWED rnd t now data w) = fst (load_confirmations t w)
       \<and> snd (delete_path resolve ALLOWED rnd t now data w)
           = Inl (case snapshot w of
                    NotObject \<Rightarrow> AttributeError
                  | Undecodable \<Rightarrow> UnicodeDecodeError
                  | _ \<Rightarrow> e)"
  using assms load_confirmations_frame [of t w]
  by (cases "load_confirmations t w")
     (auto simp: delete_path_def action_defs split: sum.splits snapshot_file.splits)

text \<open>
  Claim C2, as the code has it. When \<open>normalize_path\<close> denies a path of a request, the
  tree and the snapshot file are left as they were, whatever the operation. Every
  operation but \<open>delete_path\<close> has then made no host call at all and raises the denial:
  \<open>normalize_path\<close> is its first step. \<open>delete_path\<close> calls \<open>load_confirmations\<close>
  first: it has checked for the snapshot file and, when there is one, read it (it has
  written nothing), and it raises the denial unless that load itself raised, which it
  does on a snapshot that does not decode or whose top level is not an object.
\<close>

theorem denied_path_stops_before_host_calls:
  assumes "first_denial (env_resolve env) ALLOWED (request_paths r) = Some e"
  shows "root (fst (serve env ALLOWED r w)) = root w
       \<and> snapshot (fst (serve env ALLOWED r w)) = snapshot w
       \<and> (if is_delete r
          then (\<exists>evs. log (fst (serve env ALLOWED r w)) = log w @ evs
                  \<and> set evs \<subseteq> {StatSnapshot, ReadSnapshot})
               \<and> snd (serve env ALLOWED r w)
                   = Inl (case snapshot w of
                    NotObject \<Rightarrow> AttributeError
                  | Undecodable \<Rightarrow> UnicodeDecodeError
                  | _ \<Rightarrow> e)
          else serve env ALLOWED r w = (w, Inl e))"
proof (cases r)
  case (DeletePath data)
  then have "normalize_path (env_resolve env) ALLOWED (dp_path data) = Inl e"
    using assms by (auto split: sum.splits)
  then show ?thesis
    using delete_path_denied [of "env_resolve env" ALLOWED data e "env_token_bytes env"
        "env_load_time env" "env_now env" w]
      load_confirmations_frame [of "env_load_time env" w]
    by (simp add: DeletePath)
next
  case (MovePath src dst)
  then show ?thesis
    using assms by (auto simp: move_path_def action_defs split: sum.splits)
qed (use assms in \<open>auto simp: create_directory_def list_directory_def directory_tree_def
      search_files_def search_content_def read_file_def write_file_def edit_file_def
      get_metadata_def action_defs split: sum.splits\<close>)

theorem denied_path_stops_before_host_calls_witness:
  "serve example_env [''/root''] (WriteFile ''/etc/passwd'' ''x'') example_world =
     (example_world,
      Inl (HTTPException 403
             (Denied ''Access Denied'' ''/etc/passwd''
                ''Requested path is outside allowed directories.'' [''/root''])))
   \<and> root (fst (serve example_env [''/root'']
                  (DeletePath \<lparr>dp_path = ''/etc/passwd'', dp_recursive = True,
                               dp_confirmation_token = None\<rparr>) pending_world))
       = root pending_world
   \<and> snapshot (fst (serve example_env [''/root'']
                  (DeletePath \<lparr>dp_path = ''/etc/passwd'', dp_recursive = True,
                               dp_confirmation_token = None\<rparr>) pending_world))
       = snapshot pending_world
   \<and> snd (serve example_env [''/root'']
                  (DeletePath \<lparr>dp_path = ''/etc/passwd'', dp_recursive = True,
                               dp_confirmation_token = None\<rparr>) pending_world)
       = Inl (HTTPException 403
             (Denied ''Access Denied'' ''/etc/passwd''
                ''Requested path is outside allowed directories.'' [''/root'']))"
proof -
  let ?e = "HTTPException 403
             (Denied ''Access Denied'' ''/etc/passwd''
                ''Requested path is outside allowed directories.'' [''/root''])"
  let ?d = "DeletePath \<lparr>dp_path = ''/etc/passwd'', dp_recursive = True,
                               dp_confirmation_token = None\<rparr>"
  have a: "first_denial (env_resolve example_env) [''/root'']
             (request_paths (WriteFile ''/etc/passwd'' ''x'')) = Some ?e"
    and b: "first_denial (env_resolve example_env) [''/root''] (request_paths ?d) = Some ?e"
    by (simp_all add: example_env_def eval_defs)
  have s: "snapshot pending_world = Object
      [(''abcde'', \<lparr>j_path = ''/root/a.txt'', j_recursive = False, j_expiry = Some 100\<rparr>),
       (''00000'', \<lparr>j_path = ''/root/sub'', j_recursive = True, j_expiry = Some 15\<rparr>),
       (''fffff'', \<lparr>j_path = ''/root/sub'', j_recursive = True, j_expiry = None\<rparr>)]"
    by (simp add: pending_world_def)
  show ?thesis
    using denied_path_stops_before_host_calls [OF a, of example_world]
      denied_path_stops_before_host_calls [OF b, of pending_world] s
    by simp
qed

text \<open>
  The claim as stated has no file read before \<open>PathGuard\<close> accepts, the confirmation
  snapshot included. A \<open>delete_path\<close> request for a path outside the allowed roots, on
  a world with a stored snapshot, is denied with the snapshot file already read.
\<close>

theorem delete_path_reads_snapshot_before_guard:
  "delete_path resolve_absolute [''/root''] [] 0 1
     \<lparr>dp_path = ''/etc/passwd'', dp_recursive = False, dp_confirmation_token = None\<rparr>
     pending_world =
   (pending_world\<lparr>log := [StatSnapshot, ReadSnapshot]\<rparr>,
    Inl (HTTPException 403
           (Denied ''Access Denied'' ''/etc/passwd''
              ''Requested path is outside allowed directories.'' [''/root''])))"
  by (simp add: eval_defs)

section \<open>DeleteWorkflow: the space of tokens\<close>

text \<open>
  A token is the first five characters of the hexadecimal text of three random bytes: five
  lower-case hexadecimal digits, of which there are \<open>16 ^ 5 = 1048576\<close>. How the host
  draws the bytes, and what an attacker can try within the sixty seconds a token lives,
  lie outside this model.
\<close>

lemma hexdigit_in_alphabet: "hexdigit n \<in> set ''0123456789abcdef''"
proof -
  have "n mod 16 < length ''0123456789abcdef''" by simp
  then show ?thesis unfolding hexdigit_def by (rule nth_mem)
qed

lemma token_hex_alphabet: "set (token_hex rnd) \<subseteq> set ''0123456789abcdef''"
proof (induction rnd)
  case Nil
  then show ?case by (simp add: token_hex_def)
next
  case (Cons b rnd)
  have "token_hex (b # rnd) = [hexdigit (unat b div 16), hexdigit (unat b mod 16)] @ token_hex rnd"
    by (simp add: token_hex_def)
  then show ?case
    using Cons.IH hexdigit_in_alphabet [of "unat b div 16"] hexdigit_in_alphabet [of "unat b mod 16"]
    by auto
qed

lemma issued_token_shape:
  assumes "length rnd = 3"
  shows "take 5 (token_hex rnd) \<in> {t. set t \<subseteq> set ''0123456789abcdef'' \<and> length t = 5}"
  using issued_token_length [OF assms] token_hex_alphabet [of rnd] set_take_subset [of 5 "token_hex rnd"]
  by blast

lemma token_space_size:
  "card {t. set t \<subseteq> set ''0123456789abcdef'' \<and> length t = 5} = 1048576"
proof -
  define A where "A = set ''0123456789abcdef''"
  have "card A = length ''0123456789abcdef''"
    unfolding A_def by (rule distinct_card) simp
  then have sixteen: "card A = 16" by simp
  have "finite A" by (simp add: A_def)
  then have "card {t. set t \<subseteq> A \<and> length t = 5} = card A ^ 5"
    by (rule card_lists_length_eq)
  also have "\<dots> = 16 ^ 5" by (simp only: sixteen)
  also have "\<dots> = 1048576" by simp
  finally show ?thesis by (simp only: A_def)
qed

end
